theory Spec2Isabelle
  imports Complex_Main "HOL-Library.Finite_Map"
begin

section \<open>Python values, exceptions and strings\<close>

text \<open>
  The backend (\<^verbatim>\<open>src/backend/main.py\<close>) handles JSON payloads as Python values. A
  payload is a \<open>pyval\<close>; a dictionary is a finite map, so that equality of two payloads is
  the same whatever the order of its keys. Numbers are kept by value. A Python \<^verbatim>\<open>str\<close>
  is modelled as the list of bytes of its UTF-8 encoding: the non-ASCII literals of the
  source are written as their bytes.
\<close>

datatype pyval =
    PNone
  | PBool bool
  | PInt int
  | PFloat real
  | PStr string
  | PList "pyval list"
  | PDict "(string, pyval) fmap"

text \<open>Truth value testing (\<^verbatim>\<open>if x:\<close>, \<^verbatim>\<open>not x\<close>).\<close>

fun truthy :: "pyval \<Rightarrow> bool" where
  "truthy PNone = False"
| "truthy (PBool b) = b"
| "truthy (PInt i) = (i \<noteq> 0)"
| "truthy (PFloat r) = (r \<noteq> 0)"
| "truthy (PStr s) = (s \<noteq> [])"
| "truthy (PList xs) = (xs \<noteq> [])"
| "truthy (PDict m) = (m \<noteq> fmempty)"

text \<open>
  Python's \<^verbatim>\<open>==\<close>. Numbers are equal by value across \<^verbatim>\<open>bool\<close>, \<^verbatim>\<open>int\<close> and \<^verbatim>\<open>float\<close>
  (\<^verbatim>\<open>True == 1\<close>, \<^verbatim>\<open>20 == 20.0\<close>), lists element by element, dictionaries key by key; so
  two values are equal when they have the same form once every number in them is written
  as a float. \<^verbatim>\<open>a != b\<close> is \<open>\<not> py_eq a b\<close>.
\<close>

primrec canon :: "pyval \<Rightarrow> pyval" where
  "canon PNone = PNone"
| "canon (PBool b) = PFloat (if b then 1 else 0)"
| "canon (PInt i) = PFloat (of_int i)"
| "canon (PFloat r) = PFloat r"
| "canon (PStr s) = PStr s"
| "canon (PList xs) = PList (map canon xs)"
| "canon (PDict m) = PDict (fmmap canon m)"

definition py_eq :: "pyval \<Rightarrow> pyval \<Rightarrow> bool" where
  "py_eq a b = (canon a = canon b)"

text \<open>
  The test \<^verbatim>\<open>new and new != old\<close> by which the code decides that a snapshot was replaced.
\<close>

definition weather_changed :: "pyval \<Rightarrow> pyval \<Rightarrow> bool" where
  "weather_changed new old = (truthy new \<and> \<not> py_eq new old)"

text \<open>
  Exceptions are values. \<open>HTTPException\<close> is FastAPI's, with its status code and detail;
  \<open>KeyError\<close> carries the missing key; \<open>ProviderError\<close> stands for whatever a library call
  (\<^verbatim>\<open>requests\<close>, \<^verbatim>\<open>groq\<close>, \<^verbatim>\<open>json\<close>) raises, identified by a description.
\<close>

datatype exn =
    HTTPException int string
  | KeyError string
  | TypeError
  | IndexError
  | AttributeError
  | ProviderError string

text \<open>\<^verbatim>\<open>value[key]\<close> with a string key: only a dictionary holding the key answers.\<close>

fun subscript :: "pyval \<Rightarrow> string \<Rightarrow> exn + pyval" where
  "subscript (PDict m) k = (case fmlookup m k of None \<Rightarrow> Inl (KeyError k) | Some v \<Rightarrow> Inr v)"
| "subscript _ k = Inl TypeError"

text \<open>
  \<^verbatim>\<open>value[0]\<close>: the first element of a list (or the first byte of a string); an empty
  sequence raises \<open>IndexError\<close>. The keys of a JSON object are strings, so a dictionary has
  no key \<^verbatim>\<open>0\<close>.
\<close>

fun index0 :: "pyval \<Rightarrow> exn + pyval" where
  "index0 (PList []) = Inl IndexError"
| "index0 (PList (x # xs)) = Inr x"
| "index0 (PStr []) = Inl IndexError"
| "index0 (PStr (c # cs)) = Inr (PStr [c])"
| "index0 (PDict m) = Inl (KeyError ''0'')"
| "index0 _ = Inl TypeError"

text \<open>\<^verbatim>\<open>dict.get(key)\<close>: \<^verbatim>\<open>None\<close> for a missing key; a value that is no dictionary has no \<^verbatim>\<open>get\<close>.\<close>

fun dict_get :: "pyval \<Rightarrow> string \<Rightarrow> exn + pyval" where
  "dict_get (PDict m) k = (case fmlookup m k of None \<Rightarrow> Inr PNone | Some v \<Rightarrow> Inr v)"
| "dict_get _ k = Inl AttributeError"

text \<open>\<^verbatim>\<open>str.lower()\<close> on the ASCII letters, and \<^verbatim>\<open>sub in s\<close>.\<close>

definition lower_char :: "char \<Rightarrow> char" where
  "lower_char c =
     (let n = (of_char c :: nat) in if 65 \<le> n \<and> n \<le> 90 then char_of (n + 32) else c)"

definition lower :: "string \<Rightarrow> string" where
  "lower s = map lower_char s"

fun contains :: "string \<Rightarrow> string \<Rightarrow> bool" where
  "contains sub [] = (sub = [])"
| "contains sub (c # cs) = (take (length sub) (c # cs) = sub \<or> contains sub cs)"

section \<open>Conversation messages\<close>

text \<open>
  A tool call requested by the model (\<^verbatim>\<open>tool_call.id\<close>, \<^verbatim>\<open>tool_call.function.name\<close>,
  \<^verbatim>\<open>tool_call.function.arguments\<close>), the model's message (\<^verbatim>\<open>message.content\<close>,
  \<^verbatim>\<open>message.tool_calls\<close>, each possibly \<^verbatim>\<open>None\<close>) and the entries of the running
  message list.
\<close>

record tool_call =
  tc_id :: string
  tc_name :: string
  tc_arguments :: string

record assistant_message =
  msg_content :: "string option"
  msg_tool_calls :: "tool_call list option"

datatype message =
    SystemMessage string
  | UserMessage string
  | AssistantMessage assistant_message
  | ToolMessage string string string

text \<open>The response of the speech provider: \<^verbatim>\<open>status_code\<close>, \<^verbatim>\<open>text\<close> and \<^verbatim>\<open>json()\<close>.\<close>

record http_response =
  status_code :: int
  text_body :: string
  json_body :: "exn + pyval"

section \<open>The external collaborators\<close>

text \<open>
  Everything outside the repository is a field of the environment: the API keys read from
  the process environment, Python's \<^verbatim>\<open>str()\<close> on numbers, containers and exceptions, and
  the library calls. A call that reaches the network takes the number of external calls
  made before it in the same request, so that two calls with the same arguments may answer
  differently.
  \<^item> \<open>requests_get n url\<close> is \<^verbatim>\<open>requests.get(url, timeout=10)\<close> followed by
    \<^verbatim>\<open>raise_for_status()\<close> and \<^verbatim>\<open>json()\<close>;
  \<^item> \<open>requests_post url headers params data\<close> is \<^verbatim>\<open>requests.post\<close>;
  \<^item> \<open>chat_completions_create n messages tools\<close> is
    \<^verbatim>\<open>groq_client.chat.completions.create\<close>, with or without the \<^verbatim>\<open>get_weather\<close> tool;
    it answers the messages of \<^verbatim>\<open>response.choices\<close>;
  \<^item> \<open>json_loads\<close> is \<^verbatim>\<open>json.loads\<close>; \<open>uuid4\<close> is \<^verbatim>\<open>str(uuid.uuid4())\<close>;
  \<^item> \<open>extract_location_from_query\<close> is the regular-expression heuristic of the same name,
    whose matching is Python's \<^verbatim>\<open>re\<close>.
\<close>

record env =
  WEATHER_API_KEY :: pyval
  DEEPGRAM_API_KEY :: pyval
  repr_value :: "pyval \<Rightarrow> string"
  exc_str :: "exn \<Rightarrow> string"
  requests_get :: "nat \<Rightarrow> string \<Rightarrow> exn + pyval"
  requests_post ::
    "string \<Rightarrow> (string \<times> string) list \<Rightarrow> (string \<times> string) list \<Rightarrow> string \<Rightarrow> exn + http_response"
  chat_completions_create :: "nat \<Rightarrow> message list \<Rightarrow> bool \<Rightarrow> exn + assistant_message list"
  json_loads :: "string \<Rightarrow> exn + pyval"
  uuid4 :: string
  extract_location_from_query :: "string \<Rightarrow> string \<Rightarrow> string option"

text \<open>\<^verbatim>\<open>str(v)\<close>, as an f-string applies it.\<close>

fun py_str :: "env \<Rightarrow> pyval \<Rightarrow> string" where
  "py_str E (PStr s) = s"
| "py_str E PNone = ''None''"
| "py_str E (PBool b) = (if b then ''True'' else ''False'')"
| "py_str E v = repr_value E v"

section \<open>Localised tables\<close>

definition translations_en :: "(string \<times> string) list" where
  "translations_en =
    [(''title'',
      [CHR 0xF0, CHR 0x9F, CHR 0x8C, CHR 0xA4, CHR 0xEF, CHR 0xB8, CHR 0x8F] @
      '' Weather Activity Advisor''),
     (''subtitle'',
      ''Get personalized activity suggestions based on real-time weather''),
     (''location_input'',
      ''Enter your location (city name)''),
     (''location_placeholder'',
      ''e.g., Tokyo, New York, London''),
     (''get_weather'',
      ''Get Weather & Suggestions''),
     (''voice_input'',
      [CHR 0xF0, CHR 0x9F, CHR 0x8E, CHR 0xA4] @ '' Voice Input''),
     (''chat_input'',
      ''Ask me anything about activities, fashion, or plans...''),
     (''example_prompts'',
      ''Example Prompts:''),
     (''weather_info'',
      ''Current Weather Information''),
     (''suggestions'',
      ''AI Suggestions''),
     (''chat_history'',
      ''Chat History''),
     (''clear_chat'',
      ''Clear Chat''),
     (''error'',
      ''Error''),
     (''weather_fetch_error'',
      ''Could not fetch weather data. Please check the location.''),
     (''language'',
      ''Language'')]"

definition translations_ja :: "(string \<times> string) list" where
  "translations_ja =
    [(''title'',
      [CHR 0xF0, CHR 0x9F, CHR 0x8C, CHR 0xA4, CHR 0xEF, CHR 0xB8, CHR 0x8F] @ '' '' @
      [CHR 0xE5, CHR 0xA4, CHR 0xA9, CHR 0xE6, CHR 0xB0, CHR 0x97, CHR 0xE3, CHR 0x82, CHR 0xA2] @
      [CHR 0xE3, CHR 0x82, CHR 0xAF, CHR 0xE3, CHR 0x83, CHR 0x86, CHR 0xE3, CHR 0x82, CHR 0xA3] @
      [CHR 0xE3, CHR 0x83, CHR 0x93, CHR 0xE3, CHR 0x83, CHR 0x86, CHR 0xE3, CHR 0x82, CHR 0xA3] @
      [CHR 0xE3, CHR 0x82, CHR 0xA2, CHR 0xE3, CHR 0x83, CHR 0x89, CHR 0xE3, CHR 0x83, CHR 0x90] @
      [CHR 0xE3, CHR 0x82, CHR 0xA4, CHR 0xE3, CHR 0x82, CHR 0xB6, CHR 0xE3, CHR 0x83, CHR 0xBC]),
     (''subtitle'',
      [CHR 0xE3, CHR 0x83, CHR 0xAA, CHR 0xE3, CHR 0x82, CHR 0xA2, CHR 0xE3, CHR 0x83, CHR 0xAB] @
      [CHR 0xE3, CHR 0x82, CHR 0xBF, CHR 0xE3, CHR 0x82, CHR 0xA4, CHR 0xE3, CHR 0x83, CHR 0xA0] @
      [CHR 0xE3, CHR 0x81, CHR 0xAE, CHR 0xE5, CHR 0xA4, CHR 0xA9, CHR 0xE6, CHR 0xB0, CHR 0x97] @
      [CHR 0xE3, CHR 0x81, CHR 0xAB, CHR 0xE5, CHR 0x9F, CHR 0xBA, CHR 0xE3, CHR 0x81, CHR 0xA5] @
      [CHR 0xE3, CHR 0x81, CHR 0x84, CHR 0xE3, CHR 0x81, CHR 0xA6, CHR 0xE3, CHR 0x83, CHR 0x91] @
      [CHR 0xE3, CHR 0x83, CHR 0xBC, CHR 0xE3, CHR 0x82, CHR 0xBD, CHR 0xE3, CHR 0x83, CHR 0x8A] @
      [CHR 0xE3, CHR 0x83, CHR 0xA9, CHR 0xE3, CHR 0x82, CHR 0xA4, CHR 0xE3, CHR 0x82, CHR 0xBA] @
      [CHR 0xE3, CHR 0x81, CHR 0x95, CHR 0xE3, CHR 0x82, CHR 0x8C, CHR 0xE3, CHR 0x81, CHR 0x9F] @
      [CHR 0xE3, CHR 0x82, CHR 0xA2, CHR 0xE3, CHR 0x82, CHR 0xAF, CHR 0xE3, CHR 0x83, CHR 0x86] @
      [CHR 0xE3, CHR 0x82, CHR 0xA3, CHR 0xE3, CHR 0x83, CHR 0x93, CHR 0xE3, CHR 0x83, CHR 0x86] @
      [CHR 0xE3, CHR 0x82, CHR 0xA3, CHR 0xE6, CHR 0x8F, CHR 0x90, CHR 0xE6, CHR 0xA1, CHR 0x88] @
      [CHR 0xE3, CHR 0x82, CHR 0x92, CHR 0xE5, CHR 0x8F, CHR 0x96, CHR 0xE5, CHR 0xBE, CHR 0x97]),
     (''location_input'',
      [CHR 0xE5, CHR 0xA0, CHR 0xB4, CHR 0xE6, CHR 0x89, CHR 0x80, CHR 0xE3, CHR 0x82, CHR 0x92] @
      [CHR 0xE5, CHR 0x85, CHR 0xA5, CHR 0xE5, CHR 0x8A, CHR 0x9B, CHR 0xE3, CHR 0x81, CHR 0x97] @
      [CHR 0xE3, CHR 0x81, CHR 0xA6, CHR 0xE3, CHR 0x81, CHR 0x8F, CHR 0xE3, CHR 0x81, CHR 0xA0] @
      [CHR 0xE3, CHR 0x81, CHR 0x95, CHR 0xE3, CHR 0x81, CHR 0x84, CHR 0xEF, CHR 0xBC, CHR 0x88] @
      [CHR 0xE9, CHR 0x83, CHR 0xBD, CHR 0xE5, CHR 0xB8, CHR 0x82, CHR 0xE5, CHR 0x90, CHR 0x8D] @
      [CHR 0xEF, CHR 0xBC, CHR 0x89]),
     (''location_placeholder'',
      [CHR 0xE4, CHR 0xBE, CHR 0x8B, CHR 0xEF, CHR 0xBC, CHR 0x9A, CHR 0xE6, CHR 0x9D, CHR 0xB1] @
      [CHR 0xE4, CHR 0xBA, CHR 0xAC, CHR 0xE3, CHR 0x80, CHR 0x81, CHR 0xE5, CHR 0xA4, CHR 0xA7] @
      [CHR 0xE9, CHR 0x98, CHR 0xAA, CHR 0xE3, CHR 0x80, CHR 0x81, CHR 0xE6, CHR 0x9C, CHR 0xAD] @
      [CHR 0xE5, CHR 0xB9, CHR 0x8C]),
     (''get_weather'',
      [CHR 0xE5, CHR 0xA4, CHR 0xA9, CHR 0xE6, CHR 0xB0, CHR 0x97, CHR 0xE3, CHR 0x81, CHR 0xA8] @
      [CHR 0xE6, CHR 0x8F, CHR 0x90, CHR 0xE6, CHR 0xA1, CHR 0x88, CHR 0xE3, CHR 0x82, CHR 0x92] @
      [CHR 0xE5, CHR 0x8F, CHR 0x96, CHR 0xE5, CHR 0xBE, CHR 0x97]),
     (''voice_input'',
      [CHR 0xF0, CHR 0x9F, CHR 0x8E, CHR 0xA4] @ '' '' @
      [CHR 0xE9, CHR 0x9F, CHR 0xB3, CHR 0xE5, CHR 0xA3, CHR 0xB0, CHR 0xE5, CHR 0x85, CHR 0xA5] @
      [CHR 0xE5, CHR 0x8A, CHR 0x9B]),
     (''chat_input'',
      [CHR 0xE3, CHR 0x82, CHR 0xA2, CHR 0xE3, CHR 0x82, CHR 0xAF, CHR 0xE3, CHR 0x83, CHR 0x86] @
      [CHR 0xE3, CHR 0x82, CHR 0xA3, CHR 0xE3, CHR 0x83, CHR 0x93, CHR 0xE3, CHR 0x83, CHR 0x86] @
      [CHR 0xE3, CHR 0x82, CHR 0xA3, CHR 0xE3, CHR 0x80, CHR 0x81, CHR 0xE3, CHR 0x83, CHR 0x95] @
      [CHR 0xE3, CHR 0x82, CHR 0xA1, CHR 0xE3, CHR 0x83, CHR 0x83, CHR 0xE3, CHR 0x82, CHR 0xB7] @
      [CHR 0xE3, CHR 0x83, CHR 0xA7, CHR 0xE3, CHR 0x83, CHR 0xB3, CHR 0xE3, CHR 0x80, CHR 0x81] @
      [CHR 0xE3, CHR 0x83, CHR 0x97, CHR 0xE3, CHR 0x83, CHR 0xA9, CHR 0xE3, CHR 0x83, CHR 0xB3] @
      [CHR 0xE3, CHR 0x81, CHR 0xAB, CHR 0xE3, CHR 0x81, CHR 0xA4, CHR 0xE3, CHR 0x81, CHR 0x84] @
      [CHR 0xE3, CHR 0x81, CHR 0xA6, CHR 0xE4, CHR 0xBD, CHR 0x95, CHR 0xE3, CHR 0x81, CHR 0xA7] @
      [CHR 0xE3, CHR 0x82, CHR 0x82, CHR 0xE8, CHR 0x81, CHR 0x9E, CHR 0xE3, CHR 0x81, CHR 0x84] @
      [CHR 0xE3, CHR 0x81, CHR 0xA6, CHR 0xE3, CHR 0x81, CHR 0x8F, CHR 0xE3, CHR 0x81, CHR 0xA0] @
      [CHR 0xE3, CHR 0x81, CHR 0x95, CHR 0xE3, CHR 0x81, CHR 0x84] @ ''...''),
     (''example_prompts'',
      [CHR 0xE4, CHR 0xBE, CHR 0x8B, CHR 0xE3, CHR 0x81, CHR 0xAE, CHR 0xE3, CHR 0x83, CHR 0x97] @
      [CHR 0xE3, CHR 0x83, CHR 0xAD, CHR 0xE3, CHR 0x83, CHR 0xB3, CHR 0xE3, CHR 0x83, CHR 0x97] @
      [CHR 0xE3, CHR 0x83, CHR 0x88, CHR 0xEF, CHR 0xBC, CHR 0x9A]),
     (''weather_info'',
      [CHR 0xE7, CHR 0x8F, CHR 0xBE, CHR 0xE5, CHR 0x9C, CHR 0xA8, CHR 0xE3, CHR 0x81, CHR 0xAE] @
      [CHR 0xE6, CHR 0xB0, CHR 0x97, CHR 0xE8, CHR 0xB1, CHR 0xA1, CHR 0xE6, CHR 0x83, CHR 0x85] @
      [CHR 0xE5, CHR 0xA0, CHR 0xB1]),
     (''suggestions'',
      ''AI'' @ [CHR 0xE6, CHR 0x8F, CHR 0x90, CHR 0xE6, CHR 0xA1, CHR 0x88]),
     (''chat_history'',
      [CHR 0xE3, CHR 0x83, CHR 0x81, CHR 0xE3, CHR 0x83, CHR 0xA3, CHR 0xE3, CHR 0x83, CHR 0x83] @
      [CHR 0xE3, CHR 0x83, CHR 0x88, CHR 0xE5, CHR 0xB1, CHR 0xA5, CHR 0xE6, CHR 0xAD, CHR 0xB4]),
     (''clear_chat'',
      [CHR 0xE3, CHR 0x83, CHR 0x81, CHR 0xE3, CHR 0x83, CHR 0xA3, CHR 0xE3, CHR 0x83, CHR 0x83] @
      [CHR 0xE3, CHR 0x83, CHR 0x88, CHR 0xE3, CHR 0x82, CHR 0x92, CHR 0xE3, CHR 0x82, CHR 0xAF] @
      [CHR 0xE3, CHR 0x83, CHR 0xAA, CHR 0xE3, CHR 0x82, CHR 0xA2]),
     (''error'',
      [CHR 0xE3, CHR 0x82, CHR 0xA8, CHR 0xE3, CHR 0x83, CHR 0xA9, CHR 0xE3, CHR 0x83, CHR 0xBC]),
     (''weather_fetch_error'',
      [CHR 0xE5, CHR 0xA4, CHR 0xA9, CHR 0xE6, CHR 0xB0, CHR 0x97, CHR 0xE3, CHR 0x83, CHR 0x87] @
      [CHR 0xE3, CHR 0x83, CHR 0xBC, CHR 0xE3, CHR 0x82, CHR 0xBF, CHR 0xE3, CHR 0x82, CHR 0x92] @
      [CHR 0xE5, CHR 0x8F, CHR 0x96, CHR 0xE5, CHR 0xBE, CHR 0x97, CHR 0xE3, CHR 0x81, CHR 0xA7] @
      [CHR 0xE3, CHR 0x81, CHR 0x8D, CHR 0xE3, CHR 0x81, CHR 0xBE, CHR 0xE3, CHR 0x81, CHR 0x9B] @
      [CHR 0xE3, CHR 0x82, CHR 0x93, CHR 0xE3, CHR 0x81, CHR 0xA7, CHR 0xE3, CHR 0x81, CHR 0x97] @
      [CHR 0xE3, CHR 0x81, CHR 0x9F, CHR 0xE3, CHR 0x80, CHR 0x82, CHR 0xE5, CHR 0xA0, CHR 0xB4] @
      [CHR 0xE6, CHR 0x89, CHR 0x80, CHR 0xE3, CHR 0x82, CHR 0x92, CHR 0xE7, CHR 0xA2, CHR 0xBA] @
      [CHR 0xE8, CHR 0xAA, CHR 0x8D, CHR 0xE3, CHR 0x81, CHR 0x97, CHR 0xE3, CHR 0x81, CHR 0xA6] @
      [CHR 0xE3, CHR 0x81, CHR 0x8F, CHR 0xE3, CHR 0x81, CHR 0xA0, CHR 0xE3, CHR 0x81, CHR 0x95] @
      [CHR 0xE3, CHR 0x81, CHR 0x84, CHR 0xE3, CHR 0x80, CHR 0x82]),
     (''language'',
      [CHR 0xE8, CHR 0xA8, CHR 0x80, CHR 0xE8, CHR 0xAA, CHR 0x9E])]"

definition examples_ja :: "string list" where
  "examples_ja =
    [[CHR 0xE4, CHR 0xBB, CHR 0x8A, CHR 0xE6, CHR 0x97, CHR 0xA5, CHR 0xE3, CHR 0x81, CHR 0xAF] @
     [CHR 0xE4, CHR 0xBD, CHR 0x95, CHR 0xE3, CHR 0x82, CHR 0x92, CHR 0xE7, CHR 0x9D, CHR 0x80] @
     [CHR 0xE3, CHR 0x82, CHR 0x8C, CHR 0xE3, CHR 0x81, CHR 0xB0, CHR 0xE3, CHR 0x81, CHR 0x84] @
     [CHR 0xE3, CHR 0x81, CHR 0x84, CHR 0xE3, CHR 0x81, CHR 0xA7, CHR 0xE3, CHR 0x81, CHR 0x99] @
     [CHR 0xE3, CHR 0x81, CHR 0x8B, CHR 0xEF, CHR 0xBC, CHR 0x9F],
     [CHR 0xE5, CHR 0xA4, CHR 0x96, CHR 0xE5, CHR 0x87, CHR 0xBA, CHR 0xE3, CHR 0x81, CHR 0x99] @
     [CHR 0xE3, CHR 0x82, CHR 0x8B, CHR 0xE3, CHR 0x81, CHR 0xAE, CHR 0xE3, CHR 0x81, CHR 0xAB] @
     [CHR 0xE8, CHR 0x89, CHR 0xAF, CHR 0xE3, CHR 0x81, CHR 0x84, CHR 0xE6, CHR 0x99, CHR 0x82] @
     [CHR 0xE9, CHR 0x96, CHR 0x93, CHR 0xE3, CHR 0x81, CHR 0xAF, CHR 0xEF, CHR 0xBC, CHR 0x9F],
     [CHR 0xE9, CHR 0x9B, CHR 0xA8, CHR 0xE3, CHR 0x81, CHR 0x8C, CHR 0xE9, CHR 0x99, CHR 0x8D] @
     [CHR 0xE3, CHR 0x82, CHR 0x8B, CHR 0xE3, CHR 0x81, CHR 0xAE, CHR 0xE3, CHR 0x81, CHR 0xA7] @
     [CHR 0xE3, CHR 0x80, CHR 0x81, CHR 0xE5, CHR 0xAE, CHR 0xA4, CHR 0xE5, CHR 0x86, CHR 0x85] @
     [CHR 0xE3, CHR 0x81, CHR 0xA7, CHR 0xE3, CHR 0x81, CHR 0xA7, CHR 0xE3, CHR 0x81, CHR 0x8D] @
     [CHR 0xE3, CHR 0x82, CHR 0x8B, CHR 0xE3, CHR 0x81, CHR 0x93, CHR 0xE3, CHR 0x81, CHR 0xA8] @
     [CHR 0xE3, CHR 0x81, CHR 0xAF, CHR 0xEF, CHR 0xBC, CHR 0x9F],
     [CHR 0xE3, CHR 0x81, CHR 0x93, CHR 0xE3, CHR 0x81, CHR 0xAE, CHR 0xE5, CHR 0xA4, CHR 0xA9] @
     [CHR 0xE6, CHR 0xB0, CHR 0x97, CHR 0xE3, CHR 0x81, CHR 0xA7, CHR 0xE3, CHR 0x81, CHR 0x8A] @
     [CHR 0xE3, CHR 0x81, CHR 0x99, CHR 0xE3, CHR 0x81, CHR 0x99, CHR 0xE3, CHR 0x82, CHR 0x81] @
     [CHR 0xE3, CHR 0x81, CHR 0xAE, CHR 0xE3, CHR 0x82, CHR 0xB9, CHR 0xE3, CHR 0x83, CHR 0x9D] @
     [CHR 0xE3, CHR 0x83, CHR 0xBC, CHR 0xE3, CHR 0x83, CHR 0x84, CHR 0xE3, CHR 0x81, CHR 0xAF] @
     [CHR 0xEF, CHR 0xBC, CHR 0x9F]]"

definition examples_en :: "string list" where
  "examples_en =
    [''What should I wear today?'',
     ''Best time to go outside?'',
     ''Indoor activities for this weather?'',
     ''Recommended sports for this weather?'']"

definition translations_table :: "(string \<times> (string \<times> string) list) list" where
  "translations_table = [(''en'', translations_en), (''ja'', translations_ja)]"

section \<open>The session store\<close>

text \<open>
  A chat turn is \<^verbatim>\<open>{'role': ..., 'content': ...}\<close>; the content of an assistant turn is
  the model's content, which may be \<^verbatim>\<open>None\<close>. A session is the dictionary stored under
  its identifier in the module-level \<^verbatim>\<open>sessions\<close>; the key \<^verbatim>\<open>'chat_history'\<close> is tested
  for presence by the code, so it is optional here, as is \<^verbatim>\<open>'formatted_weather'\<close>.
\<close>

datatype turn = Turn (turn_role: string) (turn_content: "string option")

record session =
  s_weather_data :: pyval
  s_chat_history :: "turn list option"
  s_language :: string
  s_formatted_weather :: "pyval option"

type_synonym sessions = "string \<rightharpoonup> session"

section \<open>Endpoints without collaborators\<close>

definition get_translations :: "string \<Rightarrow> exn + (string \<times> string) list" where
  "get_translations language =
     (case map_of translations_table language of
        None \<Rightarrow> Inl (HTTPException 400 ''Language not supported'')
      | Some table \<Rightarrow> Inr table)"

definition get_examples :: "string \<Rightarrow> exn + string list" where
  "get_examples language = (if language = ''ja'' then Inr examples_ja else Inr examples_en)"

definition get_session :: "sessions \<Rightarrow> string \<Rightarrow> exn + session" where
  "get_session sessions session_id =
     (case sessions session_id of
        None \<Rightarrow> Inl (HTTPException 404 ''Session not found'')
      | Some s \<Rightarrow> Inr s)"

text \<open>The result is the answer (or the exception) and the store after the call.\<close>

definition clear_chat :: "sessions \<Rightarrow> string \<Rightarrow> (exn + string) \<times> sessions" where
  "clear_chat sessions session_id =
     (case sessions session_id of
        None \<Rightarrow> (Inl (HTTPException 404 ''Session not found''), sessions)
      | Some s \<Rightarrow>
          (Inr ''Chat history cleared'', sessions(session_id \<mapsto> s\<lparr>s_chat_history := Some []\<rparr>)))"

section \<open>Sequencing of fallible steps\<close>

text \<open>
  A step that may raise answers \<open>Inl\<close> of the exception. \<open>then_do\<close> runs the rest only
  after a step that returned; \<open>collect\<close> evaluates steps from left to right and answers the
  first exception, or all the values.
\<close>

definition then_do :: "exn + 'a \<Rightarrow> ('a \<Rightarrow> exn + 'b) \<Rightarrow> exn + 'b" where
  "then_do m f = (case m of Inl e \<Rightarrow> Inl e | Inr x \<Rightarrow> f x)"

fun collect :: "(exn + 'a) list \<Rightarrow> exn + 'a list" where
  "collect [] = Inr []"
| "collect (m # ms) =
     (case m of
        Inl e \<Rightarrow> Inl e
      | Inr v \<Rightarrow> (case collect ms of Inl e \<Rightarrow> Inl e | Inr vs \<Rightarrow> Inr (v # vs)))"

section \<open>Weather gateway\<close>

definition degree :: string where
  "degree = [CHR 0xC2, CHR 0xB0]"

definition fetch_weather :: "env \<Rightarrow> nat \<Rightarrow> pyval \<Rightarrow> exn + pyval" where
  "fetch_weather E n location =
     (case requests_get E n
             (''http://api.weatherapi.com/v1/current.json?key='' @ py_str E (WEATHER_API_KEY E) @
              ''&q='' @ py_str E location @ ''&aqi=yes'') of
        Inl e \<Rightarrow> Inl (HTTPException 400 (''Error fetching weather: '' @ exc_str E e))
      | Inr weather_data \<Rightarrow> Inr weather_data)"

text \<open>
  The fourteen fields read by \<^verbatim>\<open>format_weather_data\<close>, in the order in which the
  dictionary display evaluates them.
\<close>

definition format_weather_data :: "env \<Rightarrow> pyval \<Rightarrow> exn + pyval" where
  "format_weather_data E weather_data =
     (if \<not> truthy weather_data then Inr PNone
      else
        then_do (subscript weather_data ''location'') (\<lambda>location.
        then_do (subscript weather_data ''current'') (\<lambda>current.
        then_do (collect
          [subscript location ''name'',
           subscript location ''country'',
           subscript current ''temp_c'',
           subscript current ''temp_f'',
           then_do (subscript current ''condition'') (\<lambda>c. subscript c ''text''),
           then_do (subscript current ''condition'') (\<lambda>c. subscript c ''icon''),
           subscript current ''feelslike_c'',
           subscript current ''humidity'',
           subscript current ''wind_kph'',
           subscript current ''wind_dir'',
           subscript current ''precip_mm'',
           subscript current ''uv'',
           subscript current ''vis_km'',
           subscript location ''localtime'']) (\<lambda>vs.
        Inr (PDict (fmap_of_list
          [(''location'', PStr (py_str E (vs ! 0) @ '', '' @ py_str E (vs ! 1))),
           (''temperature'',
              PStr (py_str E (vs ! 2) @ degree @ ''C / '' @ py_str E (vs ! 3) @ degree @ ''F'')),
           (''condition'', vs ! 4),
           (''icon'', vs ! 5),
           (''feels_like'', PStr (py_str E (vs ! 6) @ degree @ ''C'')),
           (''humidity'', PStr (py_str E (vs ! 7) @ ''%'')),
           (''wind'', PStr (py_str E (vs ! 8) @ '' km/h '' @ py_str E (vs ! 9))),
           (''precipitation'', PStr (py_str E (vs ! 10) @ '' mm'')),
           (''uv_index'', vs ! 11),
           (''visibility'', PStr (py_str E (vs ! 12) @ '' km'')),
           (''local_time'', vs ! 13),
           (''raw_data'', weather_data)]))))))"

text \<open>
  The summary of a payload that the orchestrator writes into a prompt or a tool result:
  the same f-string four times in the source, under the heading \<^verbatim>\<open>Current weather in\<close>
  or \<^verbatim>\<open>Weather in\<close>.
\<close>

definition weather_text :: "env \<Rightarrow> string \<Rightarrow> pyval \<Rightarrow> exn + string" where
  "weather_text E heading weather_data =
     then_do (subscript weather_data ''location'') (\<lambda>location.
     then_do (subscript weather_data ''current'') (\<lambda>current.
     then_do (collect
       [subscript location ''name'',
        subscript location ''country'',
        subscript current ''temp_c'',
        subscript current ''feelslike_c'',
        then_do (subscript current ''condition'') (\<lambda>c. subscript c ''text''),
        subscript current ''humidity'',
        subscript current ''wind_kph'',
        subscript current ''uv'',
        subscript current ''precip_mm'',
        subscript location ''localtime'']) (\<lambda>vs.
     Inr (''\<newline>'' @ heading @ py_str E (vs ! 0) @ '', '' @ py_str E (vs ! 1) @
          '':\<newline>- Temperature: '' @ py_str E (vs ! 2) @ degree @ ''C (feels like '' @
          py_str E (vs ! 3) @ degree @ ''C)\<newline>- Condition: '' @ py_str E (vs ! 4) @
          ''\<newline>- Humidity: '' @ py_str E (vs ! 5) @ ''%\<newline>- Wind: '' @
          py_str E (vs ! 6) @ '' km/h\<newline>- UV Index: '' @ py_str E (vs ! 7) @
          ''\<newline>- Precipitation: '' @ py_str E (vs ! 8) @ '' mm\<newline>- Local time: '' @
          py_str E (vs ! 9) @ ''\<newline>''))))"

section \<open>Speech gateway\<close>

definition content_type_map :: "(string \<times> string) list" where
  "content_type_map =
     [(''mp3'', ''audio/mpeg''), (''wav'', ''audio/wav''), (''flac'', ''audio/flac''),
      (''m4a'', ''audio/mp4''), (''ogg'', ''audio/ogg''), (''opus'', ''audio/opus''),
      (''webm'', ''audio/webm'')]"

text \<open>
  The content type of a declared format, the body of the \<^verbatim>\<open>try\<close> block of \<^verbatim>\<open>transcribe_audio_deepgram\<close>, then the function with
  its \<^verbatim>\<open>except Exception\<close> handler, which also catches the \<open>HTTPException\<close> that the body
  raises on a status other than 200.
\<close>

definition content_type_for :: "string option \<Rightarrow> string" where
  "content_type_for audio_format =
     (case audio_format of
        None \<Rightarrow> ''audio/wav''
      | Some f \<Rightarrow>
          if f \<noteq> [] then
            (case map_of content_type_map (lower f) of None \<Rightarrow> ''audio/wav'' | Some t \<Rightarrow> t)
          else ''audio/wav'')"

definition transcribe_body :: "env \<Rightarrow> string \<Rightarrow> string option \<Rightarrow> string \<Rightarrow> exn + pyval" where
  "transcribe_body E audio_bytes audio_format language =
     (let headers =
            [(''Authorization'', ''Token '' @ py_str E (DEEPGRAM_API_KEY E)),
             (''Content-Type'', content_type_for audio_format)];
          params =
            [(''model'', ''nova-2''), (''language'', language),
             (''smart_format'', ''true''), (''punctuate'', ''true'')]
      in then_do (requests_post E ''https://api.deepgram.com/v1/listen'' headers params audio_bytes)
           (\<lambda>response.
              if status_code response = 200 then
                then_do (json_body response) (\<lambda>result.
                then_do (subscript result ''results'') (\<lambda>results.
                then_do (subscript results ''channels'') (\<lambda>channels.
                then_do (index0 channels) (\<lambda>channel.
                then_do (subscript channel ''alternatives'') (\<lambda>alternatives.
                then_do (index0 alternatives) (\<lambda>alternative.
                then_do (subscript alternative ''transcript'') (\<lambda>transcript.
                Inr (if truthy transcript then transcript else PNone))))))))
              else
                Inl (HTTPException (status_code response)
                       (''Deepgram API Error: '' @ text_body response))))"

definition transcribe_audio_deepgram ::
    "env \<Rightarrow> string \<Rightarrow> string option \<Rightarrow> string \<Rightarrow> exn + pyval" where
  "transcribe_audio_deepgram E audio_bytes audio_format language =
     (case transcribe_body E audio_bytes audio_format language of
        Inl e \<Rightarrow> Inl (HTTPException 500 (''Transcription error: '' @ exc_str E e))
      | Inr transcript \<Rightarrow> Inr transcript)"

section \<open>Suggestion orchestrator\<close>

definition system_prompt_ja :: string where
  "system_prompt_ja =
     [CHR 0xE3, CHR 0x81, CHR 0x82, CHR 0xE3, CHR 0x81, CHR 0xAA, CHR 0xE3, CHR 0x81, CHR 0x9F] @
     [CHR 0xE3, CHR 0x81, CHR 0xAF, CHR 0xE8, CHR 0xA6, CHR 0xAA, CHR 0xE5, CHR 0x88, CHR 0x87] @
     [CHR 0xE3, CHR 0x81, CHR 0xAA, CHR 0xE5, CHR 0xA4, CHR 0xA9, CHR 0xE6, CHR 0xB0, CHR 0x97] @
     [CHR 0xE3, CHR 0x82, CHR 0xA2, CHR 0xE3, CHR 0x83, CHR 0x89, CHR 0xE3, CHR 0x83, CHR 0x90] @
     [CHR 0xE3, CHR 0x82, CHR 0xA4, CHR 0xE3, CHR 0x82, CHR 0xB6, CHR 0xE3, CHR 0x83, CHR 0xBC] @
     [CHR 0xE3, CHR 0x81, CHR 0xA7, CHR 0xE3, CHR 0x81, CHR 0x99, CHR 0xE3, CHR 0x80, CHR 0x82] @
     [CHR 0xE7, CHR 0x8F, CHR 0xBE, CHR 0xE5, CHR 0x9C, CHR 0xA8, CHR 0xE3, CHR 0x81, CHR 0xAE] @
     [CHR 0xE5, CHR 0xA4, CHR 0xA9, CHR 0xE6, CHR 0xB0, CHR 0x97, CHR 0xE3, CHR 0x81, CHR 0xAB] @
     [CHR 0xE5, CHR 0x9F, CHR 0xBA, CHR 0xE3, CHR 0x81, CHR 0xA5, CHR 0xE3, CHR 0x81, CHR 0x84] @
     [CHR 0xE3, CHR 0x81, CHR 0xA6, CHR 0xE3, CHR 0x80, CHR 0x81, CHR 0xE3, CHR 0x82, CHR 0xA2] @
     [CHR 0xE3, CHR 0x82, CHR 0xAF, CHR 0xE3, CHR 0x83, CHR 0x86, CHR 0xE3, CHR 0x82, CHR 0xA3] @
     [CHR 0xE3, CHR 0x83, CHR 0x93, CHR 0xE3, CHR 0x83, CHR 0x86, CHR 0xE3, CHR 0x82, CHR 0xA3] @
     [CHR 0xE3, CHR 0x80, CHR 0x81, CHR 0xE5, CHR 0xA4, CHR 0x96, CHR 0xE5, CHR 0x87, CHR 0xBA] @
     [CHR 0xE3, CHR 0x80, CHR 0x81, CHR 0xE3, CHR 0x83, CHR 0x95, CHR 0xE3, CHR 0x82, CHR 0xA1] @
     [CHR 0xE3, CHR 0x83, CHR 0x83, CHR 0xE3, CHR 0x82, CHR 0xB7, CHR 0xE3, CHR 0x83, CHR 0xA7] @
     [CHR 0xE3, CHR 0x83, CHR 0xB3, CHR 0xE3, CHR 0x80, CHR 0x81, CHR 0xE9, CHR 0x9F, CHR 0xB3] @
     [CHR 0xE6, CHR 0xA5, CHR 0xBD, CHR 0xE3, CHR 0x80, CHR 0x81, CHR 0xE3, CHR 0x82, CHR 0xB9] @
     [CHR 0xE3, CHR 0x83, CHR 0x9D, CHR 0xE3, CHR 0x83, CHR 0xBC, CHR 0xE3, CHR 0x83, CHR 0x84] @
     [CHR 0xE3, CHR 0x81, CHR 0xAA, CHR 0xE3, CHR 0x81, CHR 0xA9, CHR 0xE3, CHR 0x81, CHR 0xAE] @
     [CHR 0xE6, CHR 0x8F, CHR 0x90, CHR 0xE6, CHR 0xA1, CHR 0x88, CHR 0xE3, CHR 0x82, CHR 0x92] @
     [CHR 0xE6, CHR 0x8F, CHR 0x90, CHR 0xE4, CHR 0xBE, CHR 0x9B, CHR 0xE3, CHR 0x81, CHR 0x97] @
     [CHR 0xE3, CHR 0x81, CHR 0xBE, CHR 0xE3, CHR 0x81, CHR 0x99, CHR 0xE3, CHR 0x80, CHR 0x82] @
     ''\<newline>'' @
     [CHR 0xE6, CHR 0x8F, CHR 0x90, CHR 0xE6, CHR 0xA1, CHR 0x88, CHR 0xE3, CHR 0x81, CHR 0xAF] @
     [CHR 0xE5, CHR 0x85, CHR 0xB7, CHR 0xE4, CHR 0xBD, CHR 0x93, CHR 0xE7, CHR 0x9A, CHR 0x84] @
     [CHR 0xE3, CHR 0x81, CHR 0xA7, CHR 0xE3, CHR 0x80, CHR 0x81, CHR 0xE5, CHR 0xAE, CHR 0x9F] @
     [CHR 0xE7, CHR 0x94, CHR 0xA8, CHR 0xE7, CHR 0x9A, CHR 0x84, CHR 0xE3, CHR 0x81, CHR 0xA7] @
     [CHR 0xE3, CHR 0x80, CHR 0x81, CHR 0xE5, CHR 0xA4, CHR 0xA9, CHR 0xE6, CHR 0xB0, CHR 0x97] @
     [CHR 0xE6, CHR 0x9D, CHR 0xA1, CHR 0xE4, CHR 0xBB, CHR 0xB6, CHR 0xE3, CHR 0x81, CHR 0xAB] @
     [CHR 0xE9, CHR 0x81, CHR 0xA9, CHR 0xE5, CHR 0x88, CHR 0x87, CHR 0xE3, CHR 0x81, CHR 0xAA] @
     [CHR 0xE3, CHR 0x82, CHR 0x82, CHR 0xE3, CHR 0x81, CHR 0xAE, CHR 0xE3, CHR 0x81, CHR 0xAB] @
     [CHR 0xE3, CHR 0x81, CHR 0x97, CHR 0xE3, CHR 0x81, CHR 0xA6, CHR 0xE3, CHR 0x81, CHR 0x8F] @
     [CHR 0xE3, CHR 0x81, CHR 0xA0, CHR 0xE3, CHR 0x81, CHR 0x95, CHR 0xE3, CHR 0x81, CHR 0x84] @
     [CHR 0xE3, CHR 0x80, CHR 0x82] @ ''\<newline>\<newline>'' @
     [CHR 0xE9, CHR 0x87, CHR 0x8D, CHR 0xE8, CHR 0xA6, CHR 0x81, CHR 0xE3, CHR 0x81, CHR 0xAA] @
     [CHR 0xE6, CHR 0xB3, CHR 0xA8, CHR 0xE6, CHR 0x84, CHR 0x8F, CHR 0xE4, CHR 0xBA, CHR 0x8B] @
     [CHR 0xE9, CHR 0xA0, CHR 0x85, CHR 0xEF, CHR 0xBC, CHR 0x9A] @ ''\<newline>- '' @
     [CHR 0xE3, CHR 0x83, CHR 0xA6, CHR 0xE3, CHR 0x83, CHR 0xBC, CHR 0xE3, CHR 0x82, CHR 0xB6] @
     [CHR 0xE3, CHR 0x83, CHR 0xBC, CHR 0xE3, CHR 0x81, CHR 0x8C, CHR 0xE8, CHR 0xB3, CHR 0xAA] @
     [CHR 0xE5, CHR 0x95, CHR 0x8F, CHR 0xE3, CHR 0x81, CHR 0xAE, CHR 0xE4, CHR 0xB8, CHR 0xAD] @
     [CHR 0xE3, CHR 0x81, CHR 0xA7, CHR 0xE5, CHR 0xA0, CHR 0xB4, CHR 0xE6, CHR 0x89, CHR 0x80] @
     [CHR 0xEF, CHR 0xBC, CHR 0x88, CHR 0xE9, CHR 0x83, CHR 0xBD, CHR 0xE5, CHR 0xB8, CHR 0x82] @
     [CHR 0xE5, CHR 0x90, CHR 0x8D, CHR 0xEF, CHR 0xBC, CHR 0x89, CHR 0xE3, CHR 0x82, CHR 0x92] @
     [CHR 0xE8, CHR 0xA8, CHR 0x80, CHR 0xE5, CHR 0x8F, CHR 0x8A, CHR 0xE3, CHR 0x81, CHR 0x97] @
     [CHR 0xE3, CHR 0x81, CHR 0x9F, CHR 0xE5, CHR 0xA0, CHR 0xB4, CHR 0xE5, CHR 0x90, CHR 0x88] @
     [CHR 0xE3, CHR 0x80, CHR 0x81, CHR 0xE3, CHR 0x81, CHR 0x9D, CHR 0xE3, CHR 0x81, CHR 0xAE] @
     [CHR 0xE5, CHR 0xA0, CHR 0xB4, CHR 0xE6, CHR 0x89, CHR 0x80, CHR 0xE3, CHR 0x81, CHR 0xAE] @
     [CHR 0xE5, CHR 0xA4, CHR 0xA9, CHR 0xE6, CHR 0xB0, CHR 0x97, CHR 0xE3, CHR 0x82, CHR 0x92] @
     [CHR 0xE8, CHR 0x87, CHR 0xAA, CHR 0xE5, CHR 0x8B, CHR 0x95, CHR 0xE7, CHR 0x9A, CHR 0x84] @
     [CHR 0xE3, CHR 0x81, CHR 0xAB, CHR 0xE5, CHR 0x8F, CHR 0x96, CHR 0xE5, CHR 0xBE, CHR 0x97] @
     [CHR 0xE3, CHR 0x81, CHR 0x99, CHR 0xE3, CHR 0x82, CHR 0x8B, CHR 0xE3, CHR 0x81, CHR 0x9F] @
     [CHR 0xE3, CHR 0x82, CHR 0x81, CHR 0xE3, CHR 0x81, CHR 0xAB] @ ''get_weather'' @
     [CHR 0xE3, CHR 0x83, CHR 0x84, CHR 0xE3, CHR 0x83, CHR 0xBC, CHR 0xE3, CHR 0x83, CHR 0xAB] @
     [CHR 0xE3, CHR 0x82, CHR 0x92, CHR 0xE4, CHR 0xBD, CHR 0xBF, CHR 0xE7, CHR 0x94, CHR 0xA8] @
     [CHR 0xE3, CHR 0x81, CHR 0x97, CHR 0xE3, CHR 0x81, CHR 0xA6, CHR 0xE3, CHR 0x81, CHR 0x8F] @
     [CHR 0xE3, CHR 0x81, CHR 0xA0, CHR 0xE3, CHR 0x81, CHR 0x95, CHR 0xE3, CHR 0x81, CHR 0x84] @
     [CHR 0xE3, CHR 0x80, CHR 0x82] @ ''\<newline>- '' @
     [CHR 0xE3, CHR 0x82, CHR 0xBB, CHR 0xE3, CHR 0x83, CHR 0x83, CHR 0xE3, CHR 0x82, CHR 0xB7] @
     [CHR 0xE3, CHR 0x83, CHR 0xA7, CHR 0xE3, CHR 0x83, CHR 0xB3, CHR 0xE3, CHR 0x81, CHR 0xAB] @
     [CHR 0xE6, CHR 0x97, CHR 0xA2, CHR 0xE5, CHR 0xAD, CHR 0x98, CHR 0xE3, CHR 0x81, CHR 0xAE] @
     [CHR 0xE5, CHR 0xA4, CHR 0xA9, CHR 0xE6, CHR 0xB0, CHR 0x97, CHR 0xE3, CHR 0x83, CHR 0x87] @
     [CHR 0xE3, CHR 0x83, CHR 0xBC, CHR 0xE3, CHR 0x82, CHR 0xBF, CHR 0xE3, CHR 0x81, CHR 0x8C] @
     [CHR 0xE3, CHR 0x81, CHR 0x82, CHR 0xE3, CHR 0x81, CHR 0xA3, CHR 0xE3, CHR 0x81, CHR 0xA6] @
     [CHR 0xE3, CHR 0x82, CHR 0x82, CHR 0xE3, CHR 0x80, CHR 0x81, CHR 0xE3, CHR 0x83, CHR 0xA6] @
     [CHR 0xE3, CHR 0x83, CHR 0xBC, CHR 0xE3, CHR 0x82, CHR 0xB6, CHR 0xE3, CHR 0x83, CHR 0xBC] @
     [CHR 0xE3, CHR 0x81, CHR 0x8C, CHR 0xE5, CHR 0x88, CHR 0xA5, CHR 0xE3, CHR 0x81, CHR 0xAE] @
     [CHR 0xE5, CHR 0xA0, CHR 0xB4, CHR 0xE6, CHR 0x89, CHR 0x80, CHR 0xE3, CHR 0x81, CHR 0xAB] @
     [CHR 0xE3, CHR 0x81, CHR 0xA4, CHR 0xE3, CHR 0x81, CHR 0x84, CHR 0xE3, CHR 0x81, CHR 0xA6] @
     [CHR 0xE5, CHR 0xB0, CHR 0x8B, CHR 0xE3, CHR 0x81, CHR 0xAD, CHR 0xE3, CHR 0x81, CHR 0xA6] @
     [CHR 0xE3, CHR 0x81, CHR 0x84, CHR 0xE3, CHR 0x82, CHR 0x8B, CHR 0xE5, CHR 0xA0, CHR 0xB4] @
     [CHR 0xE5, CHR 0x90, CHR 0x88, CHR 0xE3, CHR 0x81, CHR 0xAF, CHR 0xE3, CHR 0x80, CHR 0x81] @
     [CHR 0xE3, CHR 0x81, CHR 0x9D, CHR 0xE3, CHR 0x81, CHR 0xAE, CHR 0xE5, CHR 0xA0, CHR 0xB4] @
     [CHR 0xE6, CHR 0x89, CHR 0x80, CHR 0xE3, CHR 0x81, CHR 0xAE, CHR 0xE5, CHR 0xA4, CHR 0xA9] @
     [CHR 0xE6, CHR 0xB0, CHR 0x97, CHR 0xE3, CHR 0x82, CHR 0x92, CHR 0xE5, CHR 0x8F, CHR 0x96] @
     [CHR 0xE5, CHR 0xBE, CHR 0x97, CHR 0xE3, CHR 0x81, CHR 0x97, CHR 0xE3, CHR 0x81, CHR 0xA6] @
     [CHR 0xE3, CHR 0x81, CHR 0x8F, CHR 0xE3, CHR 0x81, CHR 0xA0, CHR 0xE3, CHR 0x81, CHR 0x95] @
     [CHR 0xE3, CHR 0x81, CHR 0x84, CHR 0xE3, CHR 0x80, CHR 0x82] @ ''\<newline>- '' @
     [CHR 0xE4, CHR 0xBE, CHR 0x8B, CHR 0xEF, CHR 0xBC, CHR 0x9A, CHR 0xE3, CHR 0x80, CHR 0x8C] @
     [CHR 0xE6, CHR 0x9D, CHR 0xB1, CHR 0xE4, CHR 0xBA, CHR 0xAC, CHR 0xE3, CHR 0x81, CHR 0xA7] @
     [CHR 0xE4, CHR 0xBB, CHR 0x8A, CHR 0xE6, CHR 0x97, CHR 0xA5, CHR 0xE4, CHR 0xBD, CHR 0x95] @
     [CHR 0xE3, CHR 0x82, CHR 0x92, CHR 0xE3, CHR 0x81, CHR 0x99, CHR 0xE3, CHR 0x81, CHR 0xB9] @
     [CHR 0xE3, CHR 0x81, CHR 0x8D, CHR 0xE3, CHR 0x81, CHR 0x8B, CHR 0xEF, CHR 0xBC, CHR 0x9F] @
     [CHR 0xE3, CHR 0x80, CHR 0x8D, CHR 0xE3, CHR 0x81, CHR 0xA8, CHR 0xE8, CHR 0x81, CHR 0x9E] @
     [CHR 0xE3, CHR 0x81, CHR 0x8B, CHR 0xE3, CHR 0x82, CHR 0x8C, CHR 0xE3, CHR 0x81, CHR 0x9F] @
     [CHR 0xE3, CHR 0x82, CHR 0x89, CHR 0xE3, CHR 0x80, CHR 0x81, CHR 0xE6, CHR 0x9D, CHR 0xB1] @
     [CHR 0xE4, CHR 0xBA, CHR 0xAC, CHR 0xE3, CHR 0x81, CHR 0xAE, CHR 0xE5, CHR 0xA4, CHR 0xA9] @
     [CHR 0xE6, CHR 0xB0, CHR 0x97, CHR 0xE3, CHR 0x82, CHR 0x92, CHR 0xE5, CHR 0x8F, CHR 0x96] @
     [CHR 0xE5, CHR 0xBE, CHR 0x97, CHR 0xE3, CHR 0x81, CHR 0x97, CHR 0xE3, CHR 0x81, CHR 0xA6] @
     [CHR 0xE3, CHR 0x81, CHR 0x8F, CHR 0xE3, CHR 0x81, CHR 0xA0, CHR 0xE3, CHR 0x81, CHR 0x95] @
     [CHR 0xE3, CHR 0x81, CHR 0x84, CHR 0xE3, CHR 0x80, CHR 0x82]"

definition system_prompt_en :: string where
  "system_prompt_en =
     ''You are a helpful weather advisor. Based on current weather conditions'' @
     '', you provide suggestions for activities, outings, fashion, music, spo'' @
     ''rts, and more.\<newline>Make your suggestions specific, practical, and'' @
     '' appropriate for the weather conditions.\<newline>\<newline>Important '' @
     ''notes:\<newline>- If the user mentions a location (city name) in their'' @
     '' query, automatically use the get_weather tool to fetch weather for th'' @
     ''at location.\<newline>- Even if there'' @ [CHR 0x27] @
     ''s existing weather data in the session, if the user asks about a diffe'' @
     ''rent location, fetch weather for that location.\<newline>- Example: If'' @ '' asked '' @
     [CHR 0x22] @ ''What should I do today in Tokyo?'' @ [CHR 0x22] @
     '', fetch weather for Tokyo.''"

definition ja_user_query_label :: string where
  "ja_user_query_label =
     ''\<newline>\<newline>'' @
     [CHR 0xE3, CHR 0x83, CHR 0xA6, CHR 0xE3, CHR 0x83, CHR 0xBC, CHR 0xE3, CHR 0x82, CHR 0xB6] @
     [CHR 0xE3, CHR 0x83, CHR 0xBC, CHR 0xE3, CHR 0x81, CHR 0xAE, CHR 0xE8, CHR 0xB3, CHR 0xAA] @
     [CHR 0xE5, CHR 0x95, CHR 0x8F] @ '': ''"

definition ja_query_instruction_fetch :: string where
  "ja_query_instruction_fetch =
     ''\<newline>\<newline>'' @
     [CHR 0xE4, CHR 0xB8, CHR 0x8A, CHR 0xE8, CHR 0xA8, CHR 0x98, CHR 0xE3, CHR 0x81, CHR 0xAE] @
     [CHR 0xE5, CHR 0xA4, CHR 0xA9, CHR 0xE6, CHR 0xB0, CHR 0x97, CHR 0xE3, CHR 0x82, CHR 0x92] @
     [CHR 0xE8, CHR 0x80, CHR 0x83, CHR 0xE6, CHR 0x85, CHR 0xAE, CHR 0xE3, CHR 0x81, CHR 0x97] @
     [CHR 0xE3, CHR 0x81, CHR 0xA6, CHR 0xE3, CHR 0x80, CHR 0x81, CHR 0xE8, CHR 0xA9, CHR 0xB3] @
     [CHR 0xE7, CHR 0xB4, CHR 0xB0, CHR 0xE3, CHR 0x81, CHR 0xAA, CHR 0xE6, CHR 0x8F, CHR 0x90] @
     [CHR 0xE6, CHR 0xA1, CHR 0x88, CHR 0xE3, CHR 0x82, CHR 0x92, CHR 0xE6, CHR 0x8F, CHR 0x90] @
     [CHR 0xE4, CHR 0xBE, CHR 0x9B, CHR 0xE3, CHR 0x81, CHR 0x97, CHR 0xE3, CHR 0x81, CHR 0xA6] @
     [CHR 0xE3, CHR 0x81, CHR 0x8F, CHR 0xE3, CHR 0x81, CHR 0xA0, CHR 0xE3, CHR 0x81, CHR 0x95] @
     [CHR 0xE3, CHR 0x81, CHR 0x84, CHR 0xE3, CHR 0x80, CHR 0x82, CHR 0xE8, CHR 0xB3, CHR 0xAA] @
     [CHR 0xE5, CHR 0x95, CHR 0x8F, CHR 0xE3, CHR 0x81, CHR 0xAB, CHR 0xE5, CHR 0xA0, CHR 0xB4] @
     [CHR 0xE6, CHR 0x89, CHR 0x80, CHR 0xE3, CHR 0x81, CHR 0x8C, CHR 0xE5, CHR 0x90, CHR 0xAB] @
     [CHR 0xE3, CHR 0x81, CHR 0xBE, CHR 0xE3, CHR 0x82, CHR 0x8C, CHR 0xE3, CHR 0x81, CHR 0xA6] @
     [CHR 0xE3, CHR 0x81, CHR 0x84, CHR 0xE3, CHR 0x82, CHR 0x8B, CHR 0xE5, CHR 0xA0, CHR 0xB4] @
     [CHR 0xE5, CHR 0x90, CHR 0x88, CHR 0xE3, CHR 0x81, CHR 0xAF, CHR 0xE3, CHR 0x80, CHR 0x81] @
     [CHR 0xE3, CHR 0x81, CHR 0x9D, CHR 0xE3, CHR 0x81, CHR 0xAE, CHR 0xE5, CHR 0xA0, CHR 0xB4] @
     [CHR 0xE6, CHR 0x89, CHR 0x80, CHR 0xE3, CHR 0x81, CHR 0xAE, CHR 0xE5, CHR 0xA4, CHR 0xA9] @
     [CHR 0xE6, CHR 0xB0, CHR 0x97, CHR 0xE3, CHR 0x82, CHR 0x92, CHR 0xE5, CHR 0x8F, CHR 0x96] @
     [CHR 0xE5, CHR 0xBE, CHR 0x97, CHR 0xE3, CHR 0x81, CHR 0x97, CHR 0xE3, CHR 0x81, CHR 0xA6] @
     [CHR 0xE3, CHR 0x81, CHR 0x8F, CHR 0xE3, CHR 0x81, CHR 0xA0, CHR 0xE3, CHR 0x81, CHR 0x95] @
     [CHR 0xE3, CHR 0x81, CHR 0x84, CHR 0xE3, CHR 0x80, CHR 0x82]"

definition ja_default_instruction :: string where
  "ja_default_instruction =
     ''\<newline>\<newline>'' @
     [CHR 0xE3, CHR 0x81, CHR 0x93, CHR 0xE3, CHR 0x81, CHR 0xAE, CHR 0xE5, CHR 0xA4, CHR 0xA9] @
     [CHR 0xE6, CHR 0xB0, CHR 0x97, CHR 0xE3, CHR 0x81, CHR 0xAB, CHR 0xE5, CHR 0x9F, CHR 0xBA] @
     [CHR 0xE3, CHR 0x81, CHR 0xA5, CHR 0xE3, CHR 0x81, CHR 0x84, CHR 0xE3, CHR 0x81, CHR 0xA6] @
     [CHR 0xE3, CHR 0x80, CHR 0x81, CHR 0xE4, CHR 0xBB, CHR 0x8A, CHR 0xE6, CHR 0x97, CHR 0xA5] @
     [CHR 0xE3, CHR 0x81, CHR 0xAE, CHR 0xE3, CHR 0x82, CHR 0xA2, CHR 0xE3, CHR 0x82, CHR 0xAF] @
     [CHR 0xE3, CHR 0x83, CHR 0x86, CHR 0xE3, CHR 0x82, CHR 0xA3, CHR 0xE3, CHR 0x83, CHR 0x93] @
     [CHR 0xE3, CHR 0x83, CHR 0x86, CHR 0xE3, CHR 0x82, CHR 0xA3, CHR 0xE3, CHR 0x80, CHR 0x81] @
     [CHR 0xE6, CHR 0x9C, CHR 0x8D, CHR 0xE8, CHR 0xA3, CHR 0x85, CHR 0xE3, CHR 0x80, CHR 0x81] @
     [CHR 0xE5, CHR 0xA4, CHR 0x96, CHR 0xE5, CHR 0x87, CHR 0xBA, CHR 0xE3, CHR 0x81, CHR 0xAE] @
     [CHR 0xE3, CHR 0x82, CHR 0xA2, CHR 0xE3, CHR 0x82, CHR 0xA4, CHR 0xE3, CHR 0x83, CHR 0x87] @
     [CHR 0xE3, CHR 0x82, CHR 0xA2, CHR 0xE3, CHR 0x82, CHR 0x92, CHR 0xE6, CHR 0x8F, CHR 0x90] @
     [CHR 0xE6, CHR 0xA1, CHR 0x88, CHR 0xE3, CHR 0x81, CHR 0x97, CHR 0xE3, CHR 0x81, CHR 0xA6] @
     [CHR 0xE3, CHR 0x81, CHR 0x8F, CHR 0xE3, CHR 0x81, CHR 0xA0, CHR 0xE3, CHR 0x81, CHR 0x95] @
     [CHR 0xE3, CHR 0x81, CHR 0x84, CHR 0xE3, CHR 0x80, CHR 0x82]"

definition ja_query_instruction :: string where
  "ja_query_instruction =
     ''\<newline>\<newline>'' @
     [CHR 0xE4, CHR 0xB8, CHR 0x8A, CHR 0xE8, CHR 0xA8, CHR 0x98, CHR 0xE3, CHR 0x81, CHR 0xAE] @
     [CHR 0xE5, CHR 0xA4, CHR 0xA9, CHR 0xE6, CHR 0xB0, CHR 0x97, CHR 0xE3, CHR 0x82, CHR 0x92] @
     [CHR 0xE8, CHR 0x80, CHR 0x83, CHR 0xE6, CHR 0x85, CHR 0xAE, CHR 0xE3, CHR 0x81, CHR 0x97] @
     [CHR 0xE3, CHR 0x81, CHR 0xA6, CHR 0xE3, CHR 0x80, CHR 0x81, CHR 0xE8, CHR 0xA9, CHR 0xB3] @
     [CHR 0xE7, CHR 0xB4, CHR 0xB0, CHR 0xE3, CHR 0x81, CHR 0xAA, CHR 0xE6, CHR 0x8F, CHR 0x90] @
     [CHR 0xE6, CHR 0xA1, CHR 0x88, CHR 0xE3, CHR 0x82, CHR 0x92, CHR 0xE6, CHR 0x8F, CHR 0x90] @
     [CHR 0xE4, CHR 0xBE, CHR 0x9B, CHR 0xE3, CHR 0x81, CHR 0x97, CHR 0xE3, CHR 0x81, CHR 0xA6] @
     [CHR 0xE3, CHR 0x81, CHR 0x8F, CHR 0xE3, CHR 0x81, CHR 0xA0, CHR 0xE3, CHR 0x81, CHR 0x95] @
     [CHR 0xE3, CHR 0x81, CHR 0x84, CHR 0xE3, CHR 0x80, CHR 0x82]"

text \<open>
  The answer of \<^verbatim>\<open>get_ai_suggestions\<close> (\<^verbatim>\<open>{"content": ..., "weather_data": ...}\<close>), the
  local variables of its loop, and a log of what one call does: the model rounds, the
  retries without the tool, the weather fetches and the runs of the location extractor,
  each with the value of \<^verbatim>\<open>iteration\<close> at which it happens.
\<close>

record suggestion =
  r_content :: "string option"
  r_weather_data :: pyval

datatype event =
    ModelRound nat bool
  | ModelRetry nat
  | ToolFetch nat string pyval "exn + pyval"
  | ExtractorRun nat "string option"
  | FallbackFetch nat string "exn + pyval"

record loop_state =
  st_messages :: "message list"
  st_final_weather_data :: pyval
  st_auto_fetch_weather :: bool
  st_calls :: nat
  st_trace :: "event list"

datatype round_outcome =
    Continue loop_state
  | Return suggestion loop_state
  | Raise exn loop_state

definition max_iterations :: nat where
  "max_iterations = 3"

definition build_prompt :: "string \<Rightarrow> string option \<Rightarrow> string \<Rightarrow> string" where
  "build_prompt weather_context user_query language =
     (case user_query of
        Some q \<Rightarrow>
          if q \<noteq> [] then
            (if language = ''ja''
             then weather_context @ ja_user_query_label @ q @ ja_query_instruction_fetch
             else weather_context @ ''\<newline>\<newline>User query: '' @ q @
                  ''\<newline>\<newline>Provide detailed suggestions considering the weather above. '' @
                  ''If the query mentions a location, fetch weather for that location.'')
          else
            (if language = ''ja'' then weather_context @ ja_default_instruction
             else weather_context @
                  ''\<newline>\<newline>Based on this weather, suggest activities, outfit ideas, '' @
                  ''and outing recommendations for today.'')
      | None \<Rightarrow>
          (if language = ''ja'' then weather_context @ ja_default_instruction
           else weather_context @
                ''\<newline>\<newline>Based on this weather, suggest activities, outfit ideas, '' @
                ''and outing recommendations for today.''))"

definition updated_prompt :: "string \<Rightarrow> string \<Rightarrow> string \<Rightarrow> string" where
  "updated_prompt weather_info q language =
     (if language = ''ja'' then weather_info @ ja_user_query_label @ q @ ja_query_instruction
      else weather_info @ ''\<newline>\<newline>User query: '' @ q @
           ''\<newline>\<newline>Provide detailed suggestions considering the weather above.'')"

text \<open>
  One submission to the model. An exception whose text mentions \<^verbatim>\<open>tool\<close> or
  \<^verbatim>\<open>function\<close> is answered by one more call without the tool, after which tool calling
  is off for the rest of the request; any other exception leaves the loop.
\<close>

definition call_model ::
    "env \<Rightarrow> nat \<Rightarrow> loop_state \<Rightarrow> (exn + assistant_message list) \<times> loop_state" where
  "call_model E iteration st =
     (let st1 = st\<lparr>st_calls := st_calls st + 1,
                   st_trace := st_trace st @ [ModelRound iteration (st_auto_fetch_weather st)]\<rparr>
      in case chat_completions_create E (st_calls st) (st_messages st) (st_auto_fetch_weather st) of
           Inr choices \<Rightarrow> (Inr choices, st1)
         | Inl tool_error \<Rightarrow>
             if contains ''tool'' (lower (exc_str E tool_error)) \<or>
                contains ''function'' (lower (exc_str E tool_error))
             then
               (let st2 = st1\<lparr>st_calls := st_calls st1 + 1,
                              st_trace := st_trace st1 @ [ModelRetry iteration]\<rparr>
                in case chat_completions_create E (st_calls st1) (st_messages st) False of
                     Inl e \<Rightarrow> (Inl e, st2)
                   | Inr choices \<Rightarrow> (Inr choices, st2\<lparr>st_auto_fetch_weather := False\<rparr>))
             else (Inl tool_error, st1))"

definition tool_calls_of :: "assistant_message \<Rightarrow> tool_call list" where
  "tool_calls_of message = (case msg_tool_calls message of None \<Rightarrow> [] | Some tcs \<Rightarrow> tcs)"

text \<open>
  One requested tool call. \<^verbatim>\<open>json.loads\<close> and \<^verbatim>\<open>args.get\<close> stand before the inner
  \<^verbatim>\<open>try\<close>, so what they raise leaves the loop; what the fetch or the formatting of its
  payload raises becomes the content of the tool result.
\<close>

definition run_tool_call ::
    "env \<Rightarrow> nat \<Rightarrow> tool_call \<Rightarrow> loop_state \<Rightarrow> exn option \<times> loop_state" where
  "run_tool_call E iteration tc st =
     (if tc_name tc = ''get_weather'' then
        (case json_loads E (tc_arguments tc) of
           Inl e \<Rightarrow> (Some e, st)
         | Inr args \<Rightarrow>
             (case dict_get args ''location'' of
                Inl e \<Rightarrow> (Some e, st)
              | Inr location_name \<Rightarrow>
                  (let fetched = fetch_weather E (st_calls st) location_name;
                       st1 = st\<lparr>st_calls := st_calls st + 1,
                                 st_trace := st_trace st @
                                   [ToolFetch iteration (tc_id tc) location_name fetched]\<rparr>
                   in case fetched of
                        Inl e \<Rightarrow>
                          (None, st1\<lparr>st_messages := st_messages st1 @
                             [ToolMessage (tc_id tc) (tc_name tc)
                                (''Error fetching weather for '' @ py_str E location_name @
                                 '': '' @ exc_str E e)]\<rparr>)
                      | Inr fetched_weather \<Rightarrow>
                          (let st2 = st1\<lparr>st_final_weather_data := fetched_weather\<rparr>
                           in case weather_text E ''Weather in '' fetched_weather of
                                Inl e \<Rightarrow>
                                  (None, st2\<lparr>st_messages := st_messages st2 @
                                     [ToolMessage (tc_id tc) (tc_name tc)
                                        (''Error fetching weather for '' @
                                         py_str E location_name @ '': '' @ exc_str E e)]\<rparr>)
                              | Inr weather_info \<Rightarrow>
                                  (None, st2\<lparr>st_messages := st_messages st2 @
                                     [ToolMessage (tc_id tc) (tc_name tc) weather_info]\<rparr>)))))
      else (None, st))"

fun run_tool_calls ::
    "env \<Rightarrow> nat \<Rightarrow> tool_call list \<Rightarrow> loop_state \<Rightarrow> exn option \<times> loop_state" where
  "run_tool_calls E iteration [] st = (None, st)"
| "run_tool_calls E iteration (tc # tcs) st =
     (case run_tool_call E iteration tc st of
        (Some e, st') \<Rightarrow> (Some e, st')
      | (None, st') \<Rightarrow> run_tool_calls E iteration tcs st')"

text \<open>
  The fallback of a round without tool requests. The answer is \<open>True\<close> when the round ends
  in \<^verbatim>\<open>continue\<close> (a location was extracted, fetched and formatted, and the message list
  rebuilt), and \<open>False\<close> when the round goes on to return the model's content.
\<close>

definition try_fallback ::
    "env \<Rightarrow> pyval \<Rightarrow> string option \<Rightarrow> string \<Rightarrow> string \<Rightarrow> nat \<Rightarrow> loop_state \<Rightarrow>
     bool \<times> loop_state" where
  "try_fallback E weather_data user_query language system_prompt iteration st =
     (case user_query of
        None \<Rightarrow> (False, st)
      | Some q \<Rightarrow>
          if q \<noteq> [] \<and> (\<not> truthy weather_data \<or> iteration = 0) then
            (let extracted_location = extract_location_from_query E q language;
                 st1 = st\<lparr>st_trace := st_trace st @ [ExtractorRun iteration extracted_location]\<rparr>
             in case extracted_location of
                  None \<Rightarrow> (False, st1)
                | Some l \<Rightarrow>
                    if l \<noteq> [] then
                      (let fetched = fetch_weather E (st_calls st1) (PStr l);
                           st2 = st1\<lparr>st_calls := st_calls st1 + 1,
                                      st_trace := st_trace st1 @ [FallbackFetch iteration l fetched]\<rparr>
                       in case fetched of
                            Inl e \<Rightarrow> (False, st2)
                          | Inr fetched_weather \<Rightarrow>
                              (let st3 = st2\<lparr>st_final_weather_data := fetched_weather\<rparr>
                               in case weather_text E ''Weather in '' fetched_weather of
                                    Inl e \<Rightarrow> (False, st3)
                                  | Inr weather_info \<Rightarrow>
                                      (True, st3\<lparr>st_messages :=
                                         [SystemMessage system_prompt,
                                          UserMessage (updated_prompt weather_info q language)]\<rparr>)))
                    else (False, st1))
          else (False, st))"

text \<open>
  The end of a round that returns: the context is rebuilt from a snapshot that differs
  from the one passed in, which reads its fields again and may raise.
\<close>

definition finalize :: "env \<Rightarrow> pyval \<Rightarrow> assistant_message \<Rightarrow> loop_state \<Rightarrow> round_outcome" where
  "finalize E weather_data message st =
     (let final_response = msg_content message;
          answer = \<lparr>r_content = final_response, r_weather_data = st_final_weather_data st\<rparr>
      in if weather_changed (st_final_weather_data st) weather_data then
           (case weather_text E ''Current weather in '' (st_final_weather_data st) of
              Inl e \<Rightarrow> Raise e st
            | Inr weather_context \<Rightarrow> Return answer st)
         else Return answer st)"

text \<open>The body of the \<^verbatim>\<open>while\<close> loop; \<open>Continue\<close> is the \<^verbatim>\<open>continue\<close> after \<^verbatim>\<open>iteration += 1\<close>.\<close>

definition run_round ::
    "env \<Rightarrow> pyval \<Rightarrow> string option \<Rightarrow> string \<Rightarrow> string \<Rightarrow> nat \<Rightarrow> loop_state \<Rightarrow> round_outcome" where
  "run_round E weather_data user_query language system_prompt iteration st =
     (case call_model E iteration st of
        (Inl e, st1) \<Rightarrow> Raise e st1
      | (Inr choices, st1) \<Rightarrow>
          (case choices of
             [] \<Rightarrow> Raise IndexError st1
           | message # rest \<Rightarrow>
               if tool_calls_of message \<noteq> [] \<and> st_auto_fetch_weather st1 then
                 (case run_tool_calls E iteration (tool_calls_of message)
                         (st1\<lparr>st_messages := st_messages st1 @ [AssistantMessage message]\<rparr>) of
                    (Some e, st2) \<Rightarrow> Raise e st2
                  | (None, st2) \<Rightarrow> Continue st2)
               else if tool_calls_of message = [] then
                 (case try_fallback E weather_data user_query language system_prompt iteration st1 of
                    (True, st2) \<Rightarrow> Continue st2
                  | (False, st2) \<Rightarrow> finalize E weather_data message st2)
               else finalize E weather_data message st1))"

function run_loop ::
    "env \<Rightarrow> pyval \<Rightarrow> string option \<Rightarrow> string \<Rightarrow> string \<Rightarrow> nat \<Rightarrow> loop_state \<Rightarrow>
     (exn + suggestion) \<times> loop_state" where
  "run_loop E weather_data user_query language system_prompt iteration st =
     (if iteration < max_iterations then
        (case run_round E weather_data user_query language system_prompt iteration st of
           Continue st' \<Rightarrow>
             run_loop E weather_data user_query language system_prompt (iteration + 1) st'
         | Return answer st' \<Rightarrow> (Inr answer, st')
         | Raise e st' \<Rightarrow> (Inl e, st'))
      else
        (Inr \<lparr>r_content = Some ''Error: Maximum iterations reached while processing your request.'',
              r_weather_data = st_final_weather_data st\<rparr>, st))"
  by pat_completeness auto
termination
  by (relation "measure (\<lambda>(E, weather_data, user_query, language, system_prompt, iteration, st).
        max_iterations - iteration)") auto

text \<open>
  \<^verbatim>\<open>get_ai_suggestions\<close>. The first context is built before the \<^verbatim>\<open>try\<close>, so an exception
  there is the caller's. \<open>suggestion_loop\<close> is the \<^verbatim>\<open>try\<close> block: the two first messages
  and the loop. An exception of the loop becomes the content of the answer, with the
  snapshot that was passed in. \<open>n0\<close> is the number of external calls the request has made
  before; beside the answer stand the log of the call and its final message list.
\<close>

definition first_context :: "env \<Rightarrow> pyval \<Rightarrow> exn + string" where
  "first_context E weather_data =
     (if truthy weather_data then weather_text E ''Current weather in '' weather_data
      else Inr [])"

definition suggestion_loop ::
    "env \<Rightarrow> nat \<Rightarrow> pyval \<Rightarrow> string option \<Rightarrow> string \<Rightarrow> bool \<Rightarrow> string \<Rightarrow>
     (exn + suggestion) \<times> loop_state" where
  "suggestion_loop E n0 weather_data user_query language auto_fetch_weather weather_context =
     (let system_prompt = (if language = ''ja'' then system_prompt_ja else system_prompt_en);
          prompt = build_prompt weather_context user_query language;
          st0 = \<lparr>st_messages = [SystemMessage system_prompt, UserMessage prompt],
                 st_final_weather_data = weather_data,
                 st_auto_fetch_weather = auto_fetch_weather,
                 st_calls = n0,
                 st_trace = []\<rparr>
      in run_loop E weather_data user_query language system_prompt 0 st0)"

definition get_ai_suggestions ::
    "env \<Rightarrow> nat \<Rightarrow> pyval \<Rightarrow> string option \<Rightarrow> string \<Rightarrow> bool \<Rightarrow>
     (exn + suggestion) \<times> event list \<times> message list" where
  "get_ai_suggestions E n0 weather_data user_query language auto_fetch_weather =
     (case first_context E weather_data of
        Inl e \<Rightarrow> (Inl e, [], [])
      | Inr weather_context \<Rightarrow>
          (case suggestion_loop E n0 weather_data user_query language auto_fetch_weather
                  weather_context of
             (Inr answer, st) \<Rightarrow> (Inr answer, st_trace st, st_messages st)
           | (Inl e, st) \<Rightarrow>
               (Inr \<lparr>r_content = Some (''Error getting AI suggestions: '' @ exc_str E e),
                     r_weather_data = weather_data\<rparr>, st_trace st, st_messages st)))"

section \<open>Endpoints over the session store\<close>

text \<open>\<^verbatim>\<open>POST /api/weather\<close>.\<close>

definition get_weather :: "env \<Rightarrow> string \<Rightarrow> exn + pyval" where
  "get_weather E location =
     then_do (fetch_weather E 0 (PStr location)) (\<lambda>weather_data.
     format_weather_data E weather_data)"

text \<open>
  \<^verbatim>\<open>POST /api/suggestions\<close>, with the request body \<^verbatim>\<open>ChatRequest\<close>. The answer holds the
  keys \<^verbatim>\<open>weather\<close> and \<^verbatim>\<open>weather_updated\<close> only when the snapshot changed: \<open>sr_weather\<close> is
  then \<open>Some\<close> of the formatted snapshot. An exception may leave the store changed, so the
  store is answered in every case. \<open>record_turns\<close> is the block that appends the user
  turn and the assistant turn to \<^verbatim>\<open>session['chat_history']\<close>, created empty when the key
  is missing.
\<close>

record chat_request =
  cr_session_id :: string
  cr_query :: string
  cr_language :: string

record suggestions_response =
  sr_suggestion :: "string option"
  sr_chat_history :: "turn list"
  sr_weather :: "pyval option"

definition record_turns :: "session \<Rightarrow> string \<Rightarrow> string option \<Rightarrow> session" where
  "record_turns s query suggestion =
     (if query \<noteq> [] then
        s\<lparr>s_chat_history :=
            Some ((case s_chat_history s of None \<Rightarrow> [] | Some h \<Rightarrow> h) @
                  [Turn ''user'' (Some query)] @ [Turn ''assistant'' suggestion])\<rparr>
      else s)"

definition get_suggestions ::
    "env \<Rightarrow> sessions \<Rightarrow> chat_request \<Rightarrow> (exn + suggestions_response) \<times> sessions" where
  "get_suggestions E sessions request =
     (let session_id = cr_session_id request
      in case sessions session_id of
           None \<Rightarrow>
             (Inl (HTTPException 404 ''Session not found. Please fetch weather first.''), sessions)
         | Some s \<Rightarrow>
             (let weather_data = s_weather_data s
              in case fst (get_ai_suggestions E 0 weather_data (Some (cr_query request))
                             (cr_language request) True) of
                   Inl e \<Rightarrow> (Inl e, sessions)
                 | Inr result \<Rightarrow>
                     (let changed = weather_changed (r_weather_data result) weather_data;
                          s1 = (if changed then s\<lparr>s_weather_data := r_weather_data result\<rparr> else s)
                      in case (if changed then format_weather_data E (r_weather_data result)
                               else Inr PNone) of
                           Inl e \<Rightarrow> (Inl e, sessions(session_id \<mapsto> s1))
                         | Inr formatted \<Rightarrow>
                             (let s2 = (if changed then s1\<lparr>s_formatted_weather := Some formatted\<rparr>
                                        else s1);
                                  suggestion = r_content result;
                                  s3 = record_turns s2 (cr_query request) suggestion;
                                  sessions' = sessions(session_id \<mapsto> s3);
                                  history = (case s_chat_history s3 of None \<Rightarrow> [] | Some h \<Rightarrow> h)
                              in if changed then
                                   (case format_weather_data E (r_weather_data result) of
                                      Inl e \<Rightarrow> (Inl e, sessions')
                                    | Inr weather \<Rightarrow>
                                        (Inr \<lparr>sr_suggestion = suggestion, sr_chat_history = history,
                                              sr_weather = Some weather\<rparr>, sessions'))
                                 else
                                   (Inr \<lparr>sr_suggestion = suggestion, sr_chat_history = history,
                                         sr_weather = None\<rparr>, sessions')))))"

text \<open>
  \<^verbatim>\<open>POST /api/weather-with-suggestions\<close>: the session is written under the identifier
  passed in, or under a fresh one when it is \<^verbatim>\<open>None\<close> or empty.
\<close>

record weather_response =
  wr_session_id :: string
  wr_weather :: pyval
  wr_suggestion :: "string option"

definition get_weather_with_suggestions ::
    "env \<Rightarrow> sessions \<Rightarrow> string \<Rightarrow> string \<Rightarrow> string option \<Rightarrow>
     (exn + weather_response) \<times> sessions" where
  "get_weather_with_suggestions E sessions location language session_id =
     (case fetch_weather E 0 (PStr location) of
        Inl e \<Rightarrow> (Inl e, sessions)
      | Inr weather_data \<Rightarrow>
          (case format_weather_data E weather_data of
             Inl e \<Rightarrow> (Inl e, sessions)
           | Inr formatted \<Rightarrow>
               (let sid = (case session_id of
                             None \<Rightarrow> uuid4 E
                           | Some i \<Rightarrow> if i \<noteq> [] then i else uuid4 E);
                    sessions' = sessions(sid \<mapsto>
                      \<lparr>s_weather_data = weather_data, s_chat_history = Some [],
                       s_language = language, s_formatted_weather = None\<rparr>)
                in case fst (get_ai_suggestions E 1 weather_data None language False) of
                     Inl e \<Rightarrow> (Inl e, sessions')
                   | Inr result \<Rightarrow>
                       (Inr \<lparr>wr_session_id = sid, wr_weather = formatted,
                             wr_suggestion = r_content result\<rparr>, sessions'))))"

text \<open>
  The application: one request against the module-level store. The endpoints that take no
  store leave it as it is.
\<close>

datatype api_request =
    GetTranslations string
  | GetExamples string
  | PostWeather string
  | PostSuggestions chat_request
  | PostWeatherWithSuggestions string string "string option"
  | GetSession string
  | DeleteChat string

datatype api_response =
    TranslationsResponse "(string \<times> string) list"
  | ExamplesResponse "string list"
  | WeatherResponse pyval
  | SuggestionsResponse suggestions_response
  | WeatherWithSuggestionsResponse weather_response
  | SessionResponse session
  | MessageResponse string

definition answer_with :: "('a \<Rightarrow> api_response) \<Rightarrow> exn + 'a \<Rightarrow> exn + api_response" where
  "answer_with f r = (case r of Inl e \<Rightarrow> Inl e | Inr x \<Rightarrow> Inr (f x))"

fun handle :: "env \<Rightarrow> sessions \<Rightarrow> api_request \<Rightarrow> (exn + api_response) \<times> sessions" where
  "handle E sessions (GetTranslations language) =
     (answer_with TranslationsResponse (get_translations language), sessions)"
| "handle E sessions (GetExamples language) =
     (answer_with ExamplesResponse (get_examples language), sessions)"
| "handle E sessions (PostWeather location) =
     (answer_with WeatherResponse (get_weather E location), sessions)"
| "handle E sessions (PostSuggestions request) =
     (case get_suggestions E sessions request of
        (r, sessions') \<Rightarrow> (answer_with SuggestionsResponse r, sessions'))"
| "handle E sessions (PostWeatherWithSuggestions location language session_id) =
     (case get_weather_with_suggestions E sessions location language session_id of
        (r, sessions') \<Rightarrow> (answer_with WeatherWithSuggestionsResponse r, sessions'))"
| "handle E sessions (GetSession session_id) =
     (answer_with SessionResponse (get_session sessions session_id), sessions)"
| "handle E sessions (DeleteChat session_id) =
     (case clear_chat sessions session_id of
        (r, sessions') \<Rightarrow> (answer_with MessageResponse r, sessions'))"

text \<open>A sequence of requests, each with the behaviour of the outside world during it.\<close>

fun serve :: "sessions \<Rightarrow> (env \<times> api_request) list \<Rightarrow> sessions" where
  "serve sessions [] = sessions"
| "serve sessions ((E, request) # requests) = serve (snd (handle E sessions request)) requests"

section \<open>Observations on a call\<close>

text \<open>
  The number of model rounds in a log, the value of \<^verbatim>\<open>iteration\<close> of an event, the
  fetch events, and the snapshot that was resolved last: the payload of the last fetch that
  succeeded, or the snapshot the call started with.
\<close>

fun is_round :: "event \<Rightarrow> bool" where
  "is_round (ModelRound i tools) = True"
| "is_round _ = False"

definition rounds_of :: "event list \<Rightarrow> nat" where
  "rounds_of evs = length (filter is_round evs)"

fun event_iteration :: "event \<Rightarrow> nat" where
  "event_iteration (ModelRound i tools) = i"
| "event_iteration (ModelRetry i) = i"
| "event_iteration (ToolFetch i c l r) = i"
| "event_iteration (ExtractorRun i x) = i"
| "event_iteration (FallbackFetch i l r) = i"

fun is_fetch :: "event \<Rightarrow> bool" where
  "is_fetch (ToolFetch i c l r) = True"
| "is_fetch (FallbackFetch i l r) = True"
| "is_fetch _ = False"

fun is_extractor :: "event \<Rightarrow> bool" where
  "is_extractor (ExtractorRun i x) = True"
| "is_extractor _ = False"

fun resolve :: "pyval \<Rightarrow> event \<Rightarrow> pyval" where
  "resolve w (ToolFetch i c l (Inr w')) = w'"
| "resolve w (FallbackFetch i l (Inr w')) = w'"
| "resolve w _ = w"

definition last_resolved :: "pyval \<Rightarrow> event list \<Rightarrow> pyval" where
  "last_resolved w evs = foldl resolve w evs"

text \<open>
  Whether a query was given (\<^verbatim>\<open>if user_query\<close>), the state in which a round ends, and what
  it means for a state to come from another by a list of logged events: the log grows by
  them, and the authoritative snapshot follows the fetches among them.
\<close>

definition query_given :: "string option \<Rightarrow> bool" where
  "query_given user_query = (case user_query of None \<Rightarrow> False | Some q \<Rightarrow> q \<noteq> [])"

fun outcome_state :: "round_outcome \<Rightarrow> loop_state" where
  "outcome_state (Continue st) = st"
| "outcome_state (Return answer st) = st"
| "outcome_state (Raise e st) = st"

definition extends :: "loop_state \<Rightarrow> loop_state \<Rightarrow> event list \<Rightarrow> bool" where
  "extends st st' new =
     (st_trace st' = st_trace st @ new \<and>
      st_final_weather_data st' = foldl resolve (st_final_weather_data st) new)"

text \<open>No run of the extractor in the first round comes after a fetch.\<close>

fun fallback_first :: "event list \<Rightarrow> bool" where
  "fallback_first [] = True"
| "fallback_first (ev # evs) =
     ((is_fetch ev \<longrightarrow> (\<forall>e \<in> set evs. is_extractor e \<longrightarrow> event_iteration e \<noteq> 0)) \<and>
      fallback_first evs)"

text \<open>What the events of one round, and of the rounds from \<open>i\<close> on, look like.\<close>

definition round_events :: "pyval \<Rightarrow> string option \<Rightarrow> nat \<Rightarrow> event list \<Rightarrow> bool" where
  "round_events wd uq i new =
     (rounds_of new = 1 \<and>
      (\<forall>ev \<in> set new. event_iteration ev = i) \<and>
      fallback_first new \<and>
      (\<forall>ev \<in> set new. is_extractor ev \<longrightarrow> query_given uq \<and> (\<not> truthy wd \<or> i = 0)))"

definition loop_events :: "pyval \<Rightarrow> string option \<Rightarrow> nat \<Rightarrow> event list \<Rightarrow> bool" where
  "loop_events wd uq i new =
     (rounds_of new \<le> max_iterations - i \<and>
      (\<forall>ev \<in> set new. i \<le> event_iteration ev \<and> event_iteration ev < max_iterations) \<and>
      fallback_first new \<and>
      (\<forall>ev \<in> set new. is_extractor ev \<longrightarrow>
         query_given uq \<and> (\<not> truthy wd \<or> event_iteration ev = 0)))"





text \<open>
  A transcript is paired when its length is even and its turns alternate, the user's first.
\<close>

definition paired :: "turn list \<Rightarrow> bool" where
  "paired h =
     (even (length h) \<and>
      (\<forall>i < length h. turn_role (h ! i) = (if even i then ''user'' else ''assistant'')))"

definition all_paired :: "sessions \<Rightarrow> bool" where
  "all_paired sessions =
     (\<forall>sid s h. sessions sid = Some s \<longrightarrow> s_chat_history s = Some h \<longrightarrow> paired h)"

text \<open>The transcript of a session: \<^verbatim>\<open>session.get('chat_history', [])\<close>.\<close>

definition transcript :: "session \<Rightarrow> turn list" where
  "transcript s = (case s_chat_history s of None \<Rightarrow> [] | Some h \<Rightarrow> h)"




section \<open>Concrete worlds\<close>

text \<open>
  A provider payload with every field the backend reads, and a world in which every
  collaborator answers: the weather provider with the payload of Osaka, the model with a
  plain text, the extractor with Osaka for the one query that names it.
\<close>

definition payload :: "string \<Rightarrow> pyval" where
  "payload city =
     PDict (fmap_of_list
       [(''location'', PDict (fmap_of_list
           [(''name'', PStr city), (''country'', PStr ''Japan''),
            (''localtime'', PStr ''2024-05-01 12:00'')])),
        (''current'', PDict (fmap_of_list
           [(''temp_c'', PInt 20), (''temp_f'', PInt 68),
            (''condition'', PDict (fmap_of_list
               [(''text'', PStr ''Sunny''), (''icon'', PStr ''sunny.png'')])),
            (''feelslike_c'', PInt 19), (''humidity'', PInt 40), (''wind_kph'', PInt 10),
            (''wind_dir'', PStr ''N''), (''precip_mm'', PInt 0), (''uv'', PInt 5),
            (''vis_km'', PInt 10)]))])"

text \<open>
  Python's \<^verbatim>\<open>str()\<close> in the concrete worlds: on an integer, its decimal digits; on an
  \<open>HTTPException\<close>, the status code and the detail, as Starlette prints it; on a
  \<open>KeyError\<close>, the key in quotes.
\<close>

fun show_nat :: "nat \<Rightarrow> string" where
  "show_nat n =
     (if n < 10 then [''0123456789'' ! n]
      else show_nat (n div 10) @ [''0123456789'' ! (n mod 10)])"

definition show_int :: "int \<Rightarrow> string" where
  "show_int i = (if i < 0 then ''-'' @ show_nat (nat (- i)) else show_nat (nat i))"

definition world_repr :: "pyval \<Rightarrow> string" where
  "world_repr v = (case v of PInt i \<Rightarrow> show_int i | _ \<Rightarrow> ''?'')"

definition world_exc_str :: "exn \<Rightarrow> string" where
  "world_exc_str e =
     (case e of
        HTTPException c d \<Rightarrow> show_int c @ '': '' @ d
      | KeyError k \<Rightarrow> [CHR 0x27] @ k @ [CHR 0x27]
      | TypeError \<Rightarrow> ''object is not subscriptable''
      | IndexError \<Rightarrow> ''list index out of range''
      | AttributeError \<Rightarrow> ''object has no attribute get''
      | ProviderError s \<Rightarrow> s)"

text \<open>
  The arguments of a tool call for Osaka, \<^verbatim>\<open>{"location": "Osaka"}\<close>, and the one query in
  which the extractor of the concrete worlds finds a location.
\<close>

definition osaka_arguments :: string where
  "osaka_arguments =
     ''{'' @ [CHR 0x22] @ ''location'' @ [CHR 0x22] @ '': '' @ [CHR 0x22] @ ''Osaka'' @
     [CHR 0x22] @ ''}''"

definition osaka_query :: string where
  "osaka_query = ''Weather in Osaka?''"

definition plain_answer :: assistant_message where
  "plain_answer = \<lparr>msg_content = Some ''Take a walk in the park.'', msg_tool_calls = None\<rparr>"

definition osaka_call :: tool_call where
  "osaka_call = \<lparr>tc_id = ''call_1'', tc_name = ''get_weather'', tc_arguments = osaka_arguments\<rparr>"

definition tool_answer :: assistant_message where
  "tool_answer = \<lparr>msg_content = None, msg_tool_calls = Some [osaka_call]\<rparr>"

definition world :: env where
  "world =
     \<lparr>WEATHER_API_KEY = PStr ''key'',
      DEEPGRAM_API_KEY = PStr ''key'',
      repr_value = world_repr,
      exc_str = world_exc_str,
      requests_get = (\<lambda>n url. Inr (payload ''Osaka'')),
      requests_post = (\<lambda>url headers params data.
         Inr \<lparr>status_code = 401, text_body = ''Invalid credentials'',
              json_body = Inl (ProviderError ''no JSON'')\<rparr>),
      chat_completions_create = (\<lambda>n messages tools. Inr [plain_answer]),
      json_loads = (\<lambda>s.
         if s = osaka_arguments then Inr (PDict (fmap_of_list [(''location'', PStr ''Osaka'')]))
         else Inl (ProviderError ''Expecting value: line 1 column 1 (char 0)'')),
      uuid4 = ''0b0c8a5e'',
      extract_location_from_query = (\<lambda>q l. if q = osaka_query then Some ''Osaka'' else None)\<rparr>"

definition chatty :: session where
  "chatty =
     \<lparr>s_weather_data = payload ''Tokyo'',
      s_chat_history = Some [Turn ''user'' (Some ''What now?''), Turn ''assistant'' (Some ''Rest.'')],
      s_language = ''en'',
      s_formatted_weather = None\<rparr>"

definition two_sessions :: sessions where
  "two_sessions = [''a'' \<mapsto> chatty, ''b'' \<mapsto> chatty\<lparr>s_language := ''ja''\<rparr>]"

text \<open>The summary of \<open>payload city\<close> under a heading.\<close>

definition summary :: "env \<Rightarrow> string \<Rightarrow> string \<Rightarrow> string" where
  "summary E heading city =
     ''\<newline>'' @ heading @ city @ '', Japan:\<newline>- Temperature: '' @ py_str E (PInt 20) @
     degree @ ''C (feels like '' @ py_str E (PInt 19) @ degree @ ''C)\<newline>- Condition: Sunny'' @
     ''\<newline>- Humidity: '' @ py_str E (PInt 40) @ ''%\<newline>- Wind: '' @
     py_str E (PInt 10) @ '' km/h\<newline>- UV Index: '' @ py_str E (PInt 5) @
     ''\<newline>- Precipitation: '' @ py_str E (PInt 0) @ '' mm\<newline>- Local time: '' @
     ''2024-05-01 12:00'' @ ''\<newline>''"

text \<open>
  The snapshot that \<^verbatim>\<open>format_weather_data\<close> makes of \<open>payload city\<close> in \<open>world\<close>, and a
  payload without the visibility.
\<close>

definition snapshot :: "string \<Rightarrow> pyval" where
  "snapshot city =
     PDict (fmap_of_list
       [(''location'', PStr (city @ '', Japan'')),
        (''temperature'', PStr (''20'' @ degree @ ''C / 68'' @ degree @ ''F'')),
        (''condition'', PStr ''Sunny''),
        (''icon'', PStr ''sunny.png''),
        (''feels_like'', PStr (''19'' @ degree @ ''C'')),
        (''humidity'', PStr ''40%''),
        (''wind'', PStr ''10 km/h N''),
        (''precipitation'', PStr ''0 mm''),
        (''uv_index'', PInt 5),
        (''visibility'', PStr ''10 km''),
        (''local_time'', PStr ''2024-05-01 12:00''),
        (''raw_data'', payload city)])"


text \<open>A world whose speech provider answers status 200 with an empty transcript.\<close>

definition silence :: pyval where
  "silence =
     PDict (fmap_of_list
       [(''results'', PDict (fmap_of_list
           [(''channels'', PList
               [PDict (fmap_of_list
                  [(''alternatives'', PList
                      [PDict (fmap_of_list [(''transcript'', PStr [])])])])])]))])"

definition quiet_world :: env where
  "quiet_world =
     world\<lparr>requests_post := (\<lambda>url headers params data.
        Inr \<lparr>status_code = 200, text_body = ''ok'', json_body = Inr silence\<rparr>)\<rparr>"

text \<open>
  A question asked in the session \<^verbatim>\<open>a\<close>, a snapshot without the key \<^verbatim>\<open>current\<close>, and a
  store whose one session holds it.
\<close>

definition asks_now :: chat_request where
  "asks_now = \<lparr>cr_session_id = ''a'', cr_query = ''What now?'', cr_language = ''en''\<rparr>"

definition bare :: pyval where
  "bare = PDict (fmap_of_list [(''location'', PDict (fmap_of_list [(''name'', PStr ''Tokyo'')]))])"

definition broken_sessions :: sessions where
  "broken_sessions = [''a'' \<mapsto> chatty\<lparr>s_weather_data := bare\<rparr>]"

text \<open>
  Three more worlds, each with a model that requests the weather of Osaka in its first
  answer: one whose model fails on its second call, one whose model then answers a plain
  text, and one whose model then answers a plain text and whose weather provider is down.
\<close>

definition tool_then_text :: "nat \<Rightarrow> message list \<Rightarrow> bool \<Rightarrow> exn + assistant_message list" where
  "tool_then_text n messages tools = (if n = 0 then Inr [tool_answer] else Inr [plain_answer])"

definition failing_world :: env where
  "failing_world =
     world\<lparr>chat_completions_create := (\<lambda>n messages tools.
        if n = 0 then Inr [tool_answer] else Inl (ProviderError ''rate limit exceeded''))\<rparr>"

definition eager_world :: env where
  "eager_world = world\<lparr>chat_completions_create := tool_then_text\<rparr>"







section \<open>Basic facts\<close>

declare run_loop.simps [simp del]

declare show_nat.simps [simp del]

lemma py_eq_refl [simp]: "py_eq a a"
  by (simp add: py_eq_def)

lemma weather_changed_same [simp]: "\<not> weather_changed w w"
  by (simp add: weather_changed_def)

lemma py_eq_numbers:
  "py_eq (PInt 20) (PFloat 20)" "py_eq (PBool False) (PInt 0)" "\<not> py_eq PNone (PInt 0)"
  by (simp_all add: py_eq_def)

lemma collect_Inr_iff:
  "(\<exists>vs. collect ms = Inr vs) \<longleftrightarrow> (\<forall>m \<in> set ms. \<exists>v. m = Inr v)"
  by (induction ms) (auto split: sum.splits)

lemma then_do_Inr_iff:
  "(then_do m f = Inr y) \<longleftrightarrow> (\<exists>x. m = Inr x \<and> f x = Inr y)"
  by (cases m) (auto simp: then_do_def)


text \<open>
  The context of a prompt reads a subset of the fields of the formatted snapshot: a
  payload that can be formatted can be summarised.
\<close>

lemma formatted_has_context:
  assumes "format_weather_data E w = Inr f" and "truthy w"
  shows "\<exists>c. weather_text E heading w = Inr c"
proof -
  from assms obtain location current vs where
    l: "subscript w ''location'' = Inr location" and
    c: "subscript w ''current'' = Inr current" and
    vs: "collect
          [subscript location ''name'',
           subscript location ''country'',
           subscript current ''temp_c'',
           subscript current ''temp_f'',
           then_do (subscript current ''condition'') (\<lambda>c. subscript c ''text''),
           then_do (subscript current ''condition'') (\<lambda>c. subscript c ''icon''),
           subscript current ''feelslike_c'',
           subscript current ''humidity'',
           subscript current ''wind_kph'',
           subscript current ''wind_dir'',
           subscript current ''precip_mm'',
           subscript current ''uv'',
           subscript current ''vis_km'',
           subscript location ''localtime''] = Inr vs"
    by (auto simp: format_weather_data_def then_do_Inr_iff)
  from vs have "\<exists>vs'. collect
       [subscript location ''name'',
        subscript location ''country'',
        subscript current ''temp_c'',
        subscript current ''feelslike_c'',
        then_do (subscript current ''condition'') (\<lambda>c. subscript c ''text''),
        subscript current ''humidity'',
        subscript current ''wind_kph'',
        subscript current ''uv'',
        subscript current ''precip_mm'',
        subscript location ''localtime''] = Inr vs'"
    unfolding collect_Inr_iff
    using collect_Inr_iff [THEN iffD1, OF exI, OF vs] by simp
  then show ?thesis
    using l c by (auto simp: weather_text_def then_do_def)
qed

text \<open>Once its first context is built, \<^verbatim>\<open>get_ai_suggestions\<close> returns.\<close>

lemma get_ai_suggestions_returns:
  assumes "truthy w \<longrightarrow> (\<exists>c. weather_text E ''Current weather in '' w = Inr c)"
  shows "\<exists>r. fst (get_ai_suggestions E n w uq lang auto) = Inr r"
  using assms
  by (auto simp: get_ai_suggestions_def first_context_def split: prod.splits sum.splits)

subsection \<open>The concrete payloads and the concrete world\<close>

lemma payload_truthy: "truthy (payload city)"
  by (simp add: payload_def)

lemma payload_name:
  "then_do (subscript (payload city) ''location'') (\<lambda>l. subscript l ''name'') = Inr (PStr city)"
  by (simp add: payload_def then_do_def)

lemma payload_inject: "payload a = payload b \<longleftrightarrow> a = b"
proof
  assume "payload a = payload b"
  then have "then_do (subscript (payload a) ''location'') (\<lambda>l. subscript l ''name'') =
             then_do (subscript (payload b) ''location'') (\<lambda>l. subscript l ''name'')"
    by simp
  then show "a = b" by (simp only: payload_name sum.inject pyval.inject)
qed simp

lemma payload_context: "\<exists>c. weather_text E heading (payload city) = Inr c"
  by (simp add: payload_def weather_text_def then_do_def)

lemma world_simps:
  "exc_str world = world_exc_str"
  "requests_get world = (\<lambda>n url. Inr (payload ''Osaka''))"
  "chat_completions_create world = (\<lambda>n messages tools. Inr [plain_answer])"
  "json_loads world osaka_arguments = Inr (PDict (fmap_of_list [(''location'', PStr ''Osaka'')]))"
  "uuid4 world = ''0b0c8a5e''"
  "extract_location_from_query world = (\<lambda>q l. if q = osaka_query then Some ''Osaka'' else None)"
  "repr_value world = world_repr"
  "WEATHER_API_KEY world = PStr ''key''"
  "DEEPGRAM_API_KEY world = PStr ''key''"
  by (simp_all add: world_def)

lemma fetch_world: "fetch_weather world n l = Inr (payload ''Osaka'')"
  by (simp add: fetch_weather_def world_simps)

lemma format_world: "format_weather_data world (payload city) = Inr (snapshot city)"
proof -
  have "format_weather_data world (payload city) =
        Inr (PDict (fmap_of_list
          [(''location'', PStr (city @ '', Japan'')),
           (''temperature'', PStr (''20'' @ degree @ ''C / 68'' @ degree @ ''F'')),
           (''condition'', PStr ''Sunny''),
           (''icon'', PStr ''sunny.png''),
           (''feels_like'', PStr (''19'' @ degree @ ''C'')),
           (''humidity'', PStr ''40%''),
           (''wind'', PStr ''10 km/h N''),
           (''precipitation'', PStr ''0 mm''),
           (''uv_index'', PInt 5),
           (''visibility'', PStr ''10 km''),
           (''local_time'', PStr ''2024-05-01 12:00''),
           (''raw_data'', PDict (fmap_of_list
              [(''location'', PDict (fmap_of_list
                  [(''name'', PStr city), (''country'', PStr ''Japan''),
                   (''localtime'', PStr ''2024-05-01 12:00'')])),
               (''current'', PDict (fmap_of_list
                  [(''temp_c'', PInt 20), (''temp_f'', PInt 68),
                   (''condition'', PDict (fmap_of_list
                      [(''text'', PStr ''Sunny''), (''icon'', PStr ''sunny.png'')])),
                   (''feelslike_c'', PInt 19), (''humidity'', PInt 40), (''wind_kph'', PInt 10),
                   (''wind_dir'', PStr ''N''), (''precip_mm'', PInt 0), (''uv'', PInt 5),
                   (''vis_km'', PInt 10)]))]))]))"
    unfolding format_weather_data_def payload_def
    by (simp add: then_do_def world_simps world_repr_def show_int_def show_nat.simps)
  then show ?thesis
    by (simp only: snapshot_def payload_def)
qed

text \<open>
  In \<open>world\<close> the model answers a plain text in the first round; for a query in which the
  extractor finds nothing, the call is done with it.
\<close>

lemma world_suggestion:
  assumes "uq \<noteq> Some osaka_query"
  shows "fst (get_ai_suggestions world n (payload city) uq lang auto) =
     Inr \<lparr>r_content = Some ''Take a walk in the park.'', r_weather_data = payload city\<rparr>"
proof -
  obtain c where c: "weather_text world ''Current weather in '' (payload city) = Inr c"
    using payload_context by blast
  show ?thesis
    using assms
    by (simp add: get_ai_suggestions_def first_context_def suggestion_loop_def Let_def
          payload_truthy c run_loop.simps max_iterations_def
          run_round_def call_model_def world_simps plain_answer_def tool_calls_of_def
          try_fallback_def finalize_def split: option.splits)
qed

subsection \<open>Evaluating a call in a concrete world\<close>

lemma weather_text_payload: "weather_text E heading (payload city) = Inr (summary E heading city)"
  by (simp add: payload_def weather_text_def then_do_def summary_def)

lemmas loop_eval =
  get_ai_suggestions_def first_context_def suggestion_loop_def Let_def run_loop.simps
  max_iterations_def run_round_def call_model_def tool_calls_of_def try_fallback_def
  finalize_def run_tool_call_def fetch_weather_def payload_truthy payload_inject
  weather_text_payload world_simps plain_answer_def tool_answer_def osaka_call_def
  tool_then_text_def world_exc_str_def show_int_def show_nat.simps osaka_query_def

section \<open>What a call logs\<close>

lemma extends_refl: "extends st st []"
  by (simp add: extends_def)

lemma extends_trans: "extends a b n1 \<Longrightarrow> extends b c n2 \<Longrightarrow> extends a c (n1 @ n2)"
  by (simp add: extends_def)

lemma fallback_first_append:
  "fallback_first (a @ b) \<longleftrightarrow>
     fallback_first a \<and> fallback_first b \<and>
     (\<forall>f \<in> set a. is_fetch f \<longrightarrow> (\<forall>e \<in> set b. is_extractor e \<longrightarrow> event_iteration e \<noteq> 0))"
  by (induction a) auto

lemma fallback_first_split:
  assumes "fallback_first evs" and "evs = pre @ ExtractorRun 0 x # post"
  shows "\<forall>p \<in> set pre. \<not> is_fetch p"
  using assms by (auto simp: fallback_first_append)

lemma rounds_of_append: "rounds_of (a @ b) = rounds_of a + rounds_of b"
  by (simp add: rounds_of_def)

lemma call_model_events:
  assumes "call_model E i st = (r, st1)"
  shows "\<exists>new. extends st st1 new \<and> rounds_of new = 1 \<and>
           (\<forall>ev \<in> set new. event_iteration ev = i \<and> \<not> is_fetch ev \<and> \<not> is_extractor ev) \<and>
           st_messages st1 = st_messages st"
proof -
  have "(st_trace st1 = st_trace st @ [ModelRound i (st_auto_fetch_weather st)] \<or>
         st_trace st1 = st_trace st @ [ModelRound i (st_auto_fetch_weather st), ModelRetry i]) \<and>
        st_final_weather_data st1 = st_final_weather_data st \<and> st_messages st1 = st_messages st"
    using assms by (auto simp: call_model_def Let_def split: sum.splits if_splits)
  then show ?thesis
    by (auto simp: extends_def rounds_of_def
        intro: exI [of _ "[ModelRound i (st_auto_fetch_weather st)]"]
               exI [of _ "[ModelRound i (st_auto_fetch_weather st), ModelRetry i]"])
qed

lemma run_tool_call_cases:
  assumes "run_tool_call E i tc st = (r, st')"
  shows "st' = st \<or>
         (\<exists>l f. extends st st' [ToolFetch i (tc_id tc) l f] \<and>
                st_auto_fetch_weather st' = st_auto_fetch_weather st)"
  using assms
  by (auto simp: run_tool_call_def Let_def extends_def split: sum.splits if_splits)

lemma run_tool_call_events:
  assumes "run_tool_call E i tc st = (r, st')"
  shows "\<exists>new. extends st st' new \<and>
           (\<forall>ev \<in> set new. event_iteration ev = i \<and> \<not> is_round ev \<and> \<not> is_extractor ev) \<and>
           st_auto_fetch_weather st' = st_auto_fetch_weather st"
  using run_tool_call_cases [OF assms]
proof
  assume "st' = st"
  then show ?thesis
    by (auto intro: exI [of _ "[]"] simp: extends_def)
next
  assume "\<exists>l f. extends st st' [ToolFetch i (tc_id tc) l f] \<and>
                st_auto_fetch_weather st' = st_auto_fetch_weather st"
  then obtain l f where "extends st st' [ToolFetch i (tc_id tc) l f]"
    "st_auto_fetch_weather st' = st_auto_fetch_weather st" by blast
  then show ?thesis
    by (intro exI [of _ "[ToolFetch i (tc_id tc) l f]"]) simp
qed

lemma run_tool_calls_events:
  assumes "run_tool_calls E i tcs st = (r, st')"
  shows "\<exists>new. extends st st' new \<and>
           (\<forall>ev \<in> set new. event_iteration ev = i \<and> \<not> is_round ev \<and> \<not> is_extractor ev) \<and>
           st_auto_fetch_weather st' = st_auto_fetch_weather st"
  using assms
proof (induction tcs arbitrary: st)
  case Nil
  then show ?case by (auto intro: exI [of _ "[]"] simp: extends_def)
next
  case (Cons tc tcs)
  obtain r1 st1 where one: "run_tool_call E i tc st = (r1, st1)"
    by (cases "run_tool_call E i tc st")
  from run_tool_call_events [OF one] obtain n1 where
    n1: "extends st st1 n1"
        "\<forall>ev \<in> set n1. event_iteration ev = i \<and> \<not> is_round ev \<and> \<not> is_extractor ev"
        "st_auto_fetch_weather st1 = st_auto_fetch_weather st"
    by blast
  show ?case
  proof (cases r1)
    case None
    then have "run_tool_calls E i tcs st1 = (r, st')"
      using Cons.prems one by simp
    from Cons.IH [OF this] obtain n2 where
      n2: "extends st1 st' n2"
          "\<forall>ev \<in> set n2. event_iteration ev = i \<and> \<not> is_round ev \<and> \<not> is_extractor ev"
          "st_auto_fetch_weather st' = st_auto_fetch_weather st1"
      by blast
    show ?thesis
      using extends_trans [OF n1(1) n2(1)] n1(2,3) n2(2,3)
      by (intro exI [of _ "n1 @ n2"]) auto
  next
    case (Some e)
    then have "st' = st1"
      using Cons.prems one by simp
    then show ?thesis
      using n1 by (intro exI [of _ n1]) auto
  qed
qed

lemma extends_messages [simp]:
  "extends (st\<lparr>st_messages := m\<rparr>) st' new = extends st st' new"
  by (simp add: extends_def)

lemma no_fetch_fallback_first: "\<forall>ev \<in> set a. \<not> is_fetch ev \<Longrightarrow> fallback_first a"
  by (induction a) auto

lemma no_extractor_fallback_first: "\<forall>ev \<in> set a. \<not> is_extractor ev \<Longrightarrow> fallback_first a"
  by (induction a) auto

lemma try_fallback_cases:
  assumes "try_fallback E wd uq lang sp i st = (b, st')"
  shows "st' = st \<or>
         (query_given uq \<and> (\<not> truthy wd \<or> i = 0) \<and>
          ((\<exists>x. extends st st' [ExtractorRun i x]) \<or>
           (\<exists>x l f. extends st st' [ExtractorRun i x, FallbackFetch i l f])))"
  using assms
  by (auto simp: try_fallback_def Let_def extends_def query_given_def
           split: option.splits sum.splits if_splits)

lemma try_fallback_events:
  assumes "try_fallback E wd uq lang sp i st = (b, st')"
  shows "\<exists>new. extends st st' new \<and>
           (\<forall>ev \<in> set new. event_iteration ev = i \<and> \<not> is_round ev) \<and>
           fallback_first new \<and>
           (\<forall>ev \<in> set new. is_extractor ev \<longrightarrow> query_given uq \<and> (\<not> truthy wd \<or> i = 0))"
proof -
  consider "st' = st"
    | x where "query_given uq" "\<not> truthy wd \<or> i = 0" "extends st st' [ExtractorRun i x]"
    | x l f where "query_given uq" "\<not> truthy wd \<or> i = 0"
        "extends st st' [ExtractorRun i x, FallbackFetch i l f]"
    using try_fallback_cases [OF assms] by blast
  then show ?thesis
  proof cases
    case 1
    then show ?thesis by (intro exI [of _ "[]"]) (simp add: extends_def)
  next
    case 2
    then show ?thesis by (intro exI [of _ "[ExtractorRun i x]"]) simp
  next
    case 3
    then show ?thesis by (intro exI [of _ "[ExtractorRun i x, FallbackFetch i l f]"]) simp
  qed
qed

lemma finalize_state: "outcome_state (finalize E wd m st) = st"
  by (simp add: finalize_def Let_def split: sum.splits)

lemma finalize_no_continue: "finalize E wd m st \<noteq> Continue st'"
  by (simp add: finalize_def Let_def split: sum.splits)

lemma finalize_return:
  "finalize E wd m st = Return r st' \<Longrightarrow>
     r_weather_data r = st_final_weather_data st' \<and> r_content r = msg_content m"
  by (auto simp: finalize_def Let_def split: sum.splits if_splits)

lemma round_events_call:
  assumes "rounds_of n1 = 1"
    and "\<forall>ev \<in> set n1. event_iteration ev = i \<and> \<not> is_fetch ev \<and> \<not> is_extractor ev"
  shows "round_events wd uq i n1"
  using assms by (simp add: round_events_def no_fetch_fallback_first)

lemma round_events_tools:
  assumes "rounds_of n1 = 1"
    and "\<forall>ev \<in> set n1. event_iteration ev = i \<and> \<not> is_fetch ev \<and> \<not> is_extractor ev"
    and "\<forall>ev \<in> set n2. event_iteration ev = i \<and> \<not> is_round ev \<and> \<not> is_extractor ev"
  shows "round_events wd uq i (n1 @ n2)"
proof -
  have "rounds_of n2 = 0"
    using assms(3) by (simp add: rounds_of_def)
  moreover have "fallback_first (n1 @ n2)"
    using assms(2,3) by (intro no_extractor_fallback_first) auto
  ultimately show ?thesis
    using assms by (auto simp: round_events_def rounds_of_append)
qed

lemma round_events_fallback:
  assumes "rounds_of n1 = 1"
    and "\<forall>ev \<in> set n1. event_iteration ev = i \<and> \<not> is_fetch ev \<and> \<not> is_extractor ev"
    and "\<forall>ev \<in> set n2. event_iteration ev = i \<and> \<not> is_round ev"
    and "fallback_first n2"
    and "\<forall>ev \<in> set n2. is_extractor ev \<longrightarrow> query_given uq \<and> (\<not> truthy wd \<or> i = 0)"
  shows "round_events wd uq i (n1 @ n2)"
proof -
  have "rounds_of n2 = 0"
    using assms(3) by (simp add: rounds_of_def)
  moreover have "fallback_first (n1 @ n2)"
    using assms(2,4) by (auto simp: fallback_first_append no_fetch_fallback_first)
  ultimately show ?thesis
    using assms by (auto simp: round_events_def rounds_of_append)
qed

lemma run_round_events:
  "\<exists>new. extends st (outcome_state (run_round E wd uq lang sp i st)) new \<and>
         round_events wd uq i new"
proof -
  obtain r st1 where cm: "call_model E i st = (r, st1)"
    by (cases "call_model E i st")
  from call_model_events [OF cm] obtain n1 where
    n1: "extends st st1 n1" "rounds_of n1 = 1"
        "\<forall>ev \<in> set n1. event_iteration ev = i \<and> \<not> is_fetch ev \<and> \<not> is_extractor ev"
    by blast
  have base: "extends st st1 n1 \<and> round_events wd uq i n1"
    using n1 round_events_call by blast
  show ?thesis
  proof (cases r)
    case (Inl e)
    then show ?thesis
      using cm base by (auto simp: run_round_def)
  next
    case (Inr choices)
    show ?thesis
    proof (cases choices)
      case Nil
      then show ?thesis
        using cm Inr base by (auto simp: run_round_def)
    next
      case (Cons message rest)
      consider (tools) "tool_calls_of message \<noteq> []" "st_auto_fetch_weather st1"
        | (fallback) "tool_calls_of message = []"
        | (ignored) "tool_calls_of message \<noteq> []" "\<not> st_auto_fetch_weather st1"
        by blast
      then show ?thesis
      proof cases
        case tools
        obtain r2 st2 where tc:
          "run_tool_calls E i (tool_calls_of message)
             (st1\<lparr>st_messages := st_messages st1 @ [AssistantMessage message]\<rparr>) = (r2, st2)"
          by (cases "run_tool_calls E i (tool_calls_of message)
             (st1\<lparr>st_messages := st_messages st1 @ [AssistantMessage message]\<rparr>)")
        from run_tool_calls_events [OF tc] obtain n2 where
          n2: "extends st1 st2 n2"
              "\<forall>ev \<in> set n2. event_iteration ev = i \<and> \<not> is_round ev \<and> \<not> is_extractor ev"
          by auto
        have st: "outcome_state (run_round E wd uq lang sp i st) = st2"
          using cm Inr Cons tools tc by (cases r2) (simp_all add: run_round_def)
        show ?thesis
          unfolding st
          using extends_trans [OF n1(1) n2(1)] round_events_tools [OF n1(2,3) n2(2)]
          by blast
      next
        case fallback
        obtain b st2 where fb: "try_fallback E wd uq lang sp i st1 = (b, st2)"
          by (cases "try_fallback E wd uq lang sp i st1")
        from try_fallback_events [OF fb] obtain n2 where
          n2: "extends st1 st2 n2"
              "\<forall>ev \<in> set n2. event_iteration ev = i \<and> \<not> is_round ev"
              "fallback_first n2"
              "\<forall>ev \<in> set n2. is_extractor ev \<longrightarrow> query_given uq \<and> (\<not> truthy wd \<or> i = 0)"
          by blast
        have st: "outcome_state (run_round E wd uq lang sp i st) = st2"
          using cm Inr Cons fallback fb by (cases b) (simp_all add: run_round_def finalize_state)
        show ?thesis
          unfolding st
          using extends_trans [OF n1(1) n2(1)] round_events_fallback [OF n1(2,3) n2(2,3,4)]
          by blast
      next
        case ignored
        then have "outcome_state (run_round E wd uq lang sp i st) = st1"
          using cm Inr Cons by (simp add: run_round_def finalize_state)
        then show ?thesis
          using base by auto
      qed
    qed
  qed
qed

lemma run_round_return:
  assumes "run_round E wd uq lang sp i st = Return r st'"
  shows "r_weather_data r = st_final_weather_data st'"
  using assms
  by (auto simp: run_round_def split: prod.splits sum.splits list.splits if_splits option.splits
           bool.splits dest: finalize_return)

lemma loop_events_Nil: "loop_events wd uq i []"
  by (simp add: loop_events_def rounds_of_def)

lemma loop_events_round:
  assumes "i < max_iterations" and "round_events wd uq i n1"
  shows "loop_events wd uq i n1"
  using assms by (auto simp: loop_events_def round_events_def)

lemma loop_events_step:
  assumes "i < max_iterations" and "round_events wd uq i n1" and "loop_events wd uq (i + 1) n2"
  shows "loop_events wd uq i (n1 @ n2)"
proof -
  have "\<forall>e \<in> set n2. event_iteration e \<noteq> 0"
    using assms(3) by (auto simp: loop_events_def)
  then have "fallback_first (n1 @ n2)"
    using assms(2,3) by (auto simp: fallback_first_append loop_events_def round_events_def)
  then show ?thesis
    using assms by (auto simp: loop_events_def round_events_def rounds_of_append)
qed

lemma run_loop_events:
  "\<exists>new. extends st (snd (run_loop E wd uq lang sp i st)) new \<and> loop_events wd uq i new"
proof (induction E wd uq lang sp i st rule: run_loop.induct)
  case (1 E wd uq lang sp i st)
  show ?case
  proof (cases "i < max_iterations")
    case False
    then have "snd (run_loop E wd uq lang sp i st) = st"
      by (simp add: run_loop.simps)
    then show ?thesis
      using extends_refl loop_events_Nil by (intro exI [of _ "[]"]) simp
  next
    case True
    from run_round_events [of st E wd uq lang sp i] obtain n1 where
      n1: "extends st (outcome_state (run_round E wd uq lang sp i st)) n1"
          "round_events wd uq i n1"
      by blast
    show ?thesis
    proof (cases "run_round E wd uq lang sp i st")
      case (Continue st')
      from "1.IH" [OF True Continue] obtain n2 where
        n2: "extends st' (snd (run_loop E wd uq lang sp (i + 1) st')) n2"
            "loop_events wd uq (i + 1) n2"
        by blast
      have "snd (run_loop E wd uq lang sp i st) = snd (run_loop E wd uq lang sp (i + 1) st')"
        using True Continue by (simp add: run_loop.simps [of E wd uq lang sp i st])
      moreover have "extends st st' n1"
        using n1(1) Continue by simp
      ultimately show ?thesis
        using extends_trans [OF _ n2(1)] loop_events_step [OF True n1(2) n2(2)]
        by (intro exI [of _ "n1 @ n2"]) simp
    next
      case (Return answer st')
      then have "snd (run_loop E wd uq lang sp i st) = st'"
        using True by (simp add: run_loop.simps [of E wd uq lang sp i st])
      then show ?thesis
        using n1 Return loop_events_round [OF True n1(2)] by (intro exI [of _ n1]) simp
    next
      case (Raise e st')
      then have "snd (run_loop E wd uq lang sp i st) = st'"
        using True by (simp add: run_loop.simps [of E wd uq lang sp i st])
      then show ?thesis
        using n1 Raise loop_events_round [OF True n1(2)] by (intro exI [of _ n1]) simp
    qed
  qed
qed

lemma run_loop_return:
  "fst (run_loop E wd uq lang sp i st) = Inr r \<Longrightarrow>
     r_weather_data r = st_final_weather_data (snd (run_loop E wd uq lang sp i st))"
proof (induction E wd uq lang sp i st rule: run_loop.induct)
  case (1 E wd uq lang sp i st)
  show ?case
  proof (cases "i < max_iterations")
    case False
    then show ?thesis
      using "1.prems" by (auto simp: run_loop.simps [of E wd uq lang sp i st])
  next
    case True
    show ?thesis
    proof (cases "run_round E wd uq lang sp i st")
      case (Continue st')
      then show ?thesis
        using True "1.IH" [OF True Continue] "1.prems"
        by (simp add: run_loop.simps [of E wd uq lang sp i st])
    next
      case (Return answer st')
      then show ?thesis
        using True "1.prems" run_round_return [OF Return]
        by (simp add: run_loop.simps [of E wd uq lang sp i st])
    next
      case (Raise e st')
      then show ?thesis
        using True "1.prems" by (simp add: run_loop.simps [of E wd uq lang sp i st])
    qed
  qed
qed

text \<open>The log of a call, and the snapshot it answers when its loop returns.\<close>

lemma suggestion_loop_events:
  "\<exists>new. st_trace (snd (suggestion_loop E n0 wd uq lang auto c)) = new \<and>
         st_final_weather_data (snd (suggestion_loop E n0 wd uq lang auto c)) =
           last_resolved wd new \<and>
         loop_events wd uq 0 new"
proof -
  define sp where "sp = (if lang = ''ja'' then system_prompt_ja else system_prompt_en)"
  define st0 where "st0 = \<lparr>st_messages = [SystemMessage sp, UserMessage (build_prompt c uq lang)],
     st_final_weather_data = wd, st_auto_fetch_weather = auto, st_calls = n0, st_trace = []\<rparr>"
  from run_loop_events [of st0 E wd uq lang sp 0] obtain new where
    new: "extends st0 (snd (run_loop E wd uq lang sp 0 st0)) new" "loop_events wd uq 0 new"
    by blast
  have "suggestion_loop E n0 wd uq lang auto c = run_loop E wd uq lang sp 0 st0"
    by (simp add: suggestion_loop_def Let_def sp_def st0_def)
  then show ?thesis
    using new by (simp add: extends_def st0_def last_resolved_def)
qed

lemma get_ai_suggestions_events:
  "loop_events wd uq 0 (fst (snd (get_ai_suggestions E n0 wd uq lang auto)))"
proof (cases "first_context E wd")
  case (Inl e)
  then show ?thesis
    by (simp add: get_ai_suggestions_def loop_events_Nil)
next
  case (Inr c)
  then have "fst (snd (get_ai_suggestions E n0 wd uq lang auto)) =
          st_trace (snd (suggestion_loop E n0 wd uq lang auto c))"
    by (simp add: get_ai_suggestions_def split: prod.splits sum.splits)
  then show ?thesis
    using suggestion_loop_events [of E n0 wd uq lang auto c] by simp
qed

section \<open>The bound on the rounds\<close>















section \<open>An exception that leaves the loop\<close>

lemma failing_loop:
  "fst (suggestion_loop failing_world 0 (payload ''Tokyo'') (Some osaka_query) ''en'' True
          (summary failing_world ''Current weather in '' ''Tokyo'')) =
     Inl (ProviderError ''rate limit exceeded'')"
  by (simp add: loop_eval failing_world_def lower_def lower_char_def)

lemma failing_trace:
  "fst (snd (get_ai_suggestions failing_world 0 (payload ''Tokyo'') (Some osaka_query) ''en'' True)) =
     [ModelRound 0 True, ToolFetch 0 ''call_1'' (PStr ''Osaka'') (Inr (payload ''Osaka'')),
      ModelRound 1 True]"
  by (simp add: loop_eval failing_world_def lower_def lower_char_def)

text \<open>
  C2, as the code has it. When the first context is built and an exception leaves the
  loop, the call returns: the content is \<^verbatim>\<open>Error getting AI suggestions:\<close> followed by the
  text of the exception, and the snapshot is the one that was passed in.
\<close>

theorem loop_exception_degrades:
  assumes "first_context E wd = Inr c"
    and "fst (suggestion_loop E n0 wd uq lang auto c) = Inl e"
  shows "fst (get_ai_suggestions E n0 wd uq lang auto) =
           Inr \<lparr>r_content = Some (''Error getting AI suggestions: '' @ exc_str E e),
                r_weather_data = wd\<rparr>"
  using assms
  by (cases "suggestion_loop E n0 wd uq lang auto c") (simp add: get_ai_suggestions_def)

theorem loop_exception_degrades_witness:
  "first_context failing_world (payload ''Tokyo'') =
     Inr (summary failing_world ''Current weather in '' ''Tokyo'') \<and>
   fst (suggestion_loop failing_world 0 (payload ''Tokyo'') (Some osaka_query) ''en'' True
          (summary failing_world ''Current weather in '' ''Tokyo'')) =
     Inl (ProviderError ''rate limit exceeded'') \<and>
   fst (get_ai_suggestions failing_world 0 (payload ''Tokyo'') (Some osaka_query) ''en'' True) =
     Inr \<lparr>r_content = Some ''Error getting AI suggestions: rate limit exceeded'',
          r_weather_data = payload ''Tokyo''\<rparr>"
proof -
  have c: "first_context failing_world (payload ''Tokyo'') =
      Inr (summary failing_world ''Current weather in '' ''Tokyo'')"
    by (simp add: first_context_def payload_truthy weather_text_payload)
  from loop_exception_degrades [OF c failing_loop] show ?thesis
    using c failing_loop by (simp add: failing_world_def world_simps world_exc_str_def show_int_def show_nat.simps)
qed

text \<open>
  The claim as stated fails when a round has fetched a snapshot before the exception: the
  model requests the weather of Osaka, the fetch succeeds, the second call of the model
  fails, and the answer carries the snapshot of Tokyo that was passed in, not the one of
  Osaka that was resolved last.
\<close>

theorem fetched_snapshot_dropped_counterexample:
  "fst (get_ai_suggestions failing_world 0 (payload ''Tokyo'') (Some osaka_query) ''en'' True) =
     Inr \<lparr>r_content = Some ''Error getting AI suggestions: rate limit exceeded'',
          r_weather_data = payload ''Tokyo''\<rparr> \<and>
   last_resolved (payload ''Tokyo'')
     (fst (snd (get_ai_suggestions failing_world 0 (payload ''Tokyo'') (Some osaka_query)
                  ''en'' True))) = payload ''Osaka'' \<and>
   payload ''Osaka'' \<noteq> payload ''Tokyo''"
proof -
  have "fst (get_ai_suggestions failing_world 0 (payload ''Tokyo'') (Some osaka_query) ''en'' True) =
     Inr \<lparr>r_content = Some ''Error getting AI suggestions: rate limit exceeded'',
          r_weather_data = payload ''Tokyo''\<rparr>"
    by (simp add: loop_eval failing_world_def lower_def lower_char_def)
  then show ?thesis
    by (simp add: failing_trace last_resolved_def payload_inject)
qed

section \<open>The fallback of the location extractor\<close>

lemma world_trace:
  "fst (snd (get_ai_suggestions world 0 (payload ''Osaka'') (Some ''What now?'') ''en'' True)) =
     [ModelRound 0 True, ExtractorRun 0 None]"
  by (simp add: loop_eval)

text \<open>
  C3, as the code has it. The guard of the fallback is \<^verbatim>\<open>not weather_data or iteration == 0\<close>:
  the extractor runs only for a query that is given, and only in the first round or in a
  call that was passed no snapshot; so a call that was passed a snapshot never runs it
  after the first round. When it runs in the first round, no weather fetch of the call
  precedes it.
\<close>

theorem extractor_fallback_guard:
  "(\<forall>i x. ExtractorRun i x \<in> set (fst (snd (get_ai_suggestions E n0 wd uq lang auto))) \<longrightarrow>
      query_given uq \<and> (i = 0 \<or> \<not> truthy wd) \<and> i < 3) \<and>
   (\<forall>pre x post.
      fst (snd (get_ai_suggestions E n0 wd uq lang auto)) = pre @ ExtractorRun 0 x # post \<longrightarrow>
      (\<forall>ev \<in> set pre. \<not> is_fetch ev))"
proof -
  have ev: "loop_events wd uq 0 (fst (snd (get_ai_suggestions E n0 wd uq lang auto)))"
    by (rule get_ai_suggestions_events)
  have "query_given uq \<and> (i = 0 \<or> \<not> truthy wd) \<and> i < 3"
    if "ExtractorRun i x \<in> set (fst (snd (get_ai_suggestions E n0 wd uq lang auto)))" for i x
    using ev that by (fastforce simp: loop_events_def max_iterations_def)
  moreover have "\<forall>ev \<in> set pre. \<not> is_fetch ev"
    if "fst (snd (get_ai_suggestions E n0 wd uq lang auto)) = pre @ ExtractorRun 0 x # post"
    for pre x post
  proof -
    have "fallback_first (fst (snd (get_ai_suggestions E n0 wd uq lang auto)))"
      using ev by (simp add: loop_events_def)
    from fallback_first_split [OF this that] show ?thesis .
  qed
  ultimately show ?thesis by blast
qed

theorem extractor_fallback_guard_witness:
  "ExtractorRun 0 None \<in>
     set (fst (snd (get_ai_suggestions world 0 (payload ''Osaka'') (Some ''What now?'') ''en'' True))) \<and>
   fst (snd (get_ai_suggestions world 0 (payload ''Osaka'') (Some ''What now?'') ''en'' True)) =
     [ModelRound 0 True] @ ExtractorRun 0 None # [] \<and>
   query_given (Some ''What now?'') \<and>
   \<not> is_fetch (ModelRound 0 True)"
proof -
  have t: "fst (snd (get_ai_suggestions world 0 (payload ''Osaka'') (Some ''What now?'') ''en'' True)) =
     [ModelRound 0 True] @ ExtractorRun 0 None # []"
    by (simp add: world_trace)
  from extractor_fallback_guard [of world 0 "payload ''Osaka''" "Some ''What now?''" "''en''" True]
  show ?thesis
    using t by (simp add: query_given_def)
qed

text \<open>
  The claim as stated fails for a call without a snapshot and with the query
  \<^verbatim>\<open>Weather in Osaka?\<close>: the model requests the weather of Osaka in the first round and
  answers a text afterwards, and the extractor runs in the second and in the third round,
  after the fetch of the first.
\<close>

theorem extractor_after_first_round_counterexample:
  "fst (snd (get_ai_suggestions eager_world 0 PNone (Some osaka_query) ''en'' True)) =
     [ModelRound 0 True, ToolFetch 0 ''call_1'' (PStr ''Osaka'') (Inr (payload ''Osaka'')),
      ModelRound 1 True, ExtractorRun 1 (Some ''Osaka''),
      FallbackFetch 1 ''Osaka'' (Inr (payload ''Osaka'')),
      ModelRound 2 True, ExtractorRun 2 (Some ''Osaka''),
      FallbackFetch 2 ''Osaka'' (Inr (payload ''Osaka''))]"
  by (simp add: loop_eval eager_world_def)

section \<open>A tool call whose fetch fails\<close>














section \<open>Transcription\<close>

text \<open>
  A status 200 with an empty transcript is answered by \<^verbatim>\<open>None\<close>. On any other status the
  body raises an \<open>HTTPException\<close> with the provider's status and text, and the handler of
  the same function catches it: what the caller sees has status 500.
\<close>

lemma transcribe_silence:
  "transcribe_audio_deepgram quiet_world ''RIFF'' (Some ''wav'') ''en'' = Inr PNone"
  by (simp add: transcribe_audio_deepgram_def transcribe_body_def then_do_def quiet_world_def
        silence_def Let_def)

lemma transcribe_rejected:
  assumes "requests_post E ''https://api.deepgram.com/v1/listen''
             [(''Authorization'', ''Token '' @ py_str E (DEEPGRAM_API_KEY E)),
              (''Content-Type'', content_type_for audio_format)]
             [(''model'', ''nova-2''), (''language'', language),
              (''smart_format'', ''true''), (''punctuate'', ''true'')] audio_bytes = Inr response"
    and "status_code response \<noteq> 200"
  shows "transcribe_audio_deepgram E audio_bytes audio_format language =
     Inl (HTTPException 500 (''Transcription error: '' @
        exc_str E (HTTPException (status_code response)
                     (''Deepgram API Error: '' @ text_body response))))"
  using assms
  by (simp add: transcribe_audio_deepgram_def transcribe_body_def then_do_def Let_def)

text \<open>
  C5, at a provider that answers status 401 with the text \<^verbatim>\<open>Invalid credentials\<close>: the
  exception that reaches the caller carries status 500, not 401; the provider's status is
  left only in the text of the detail, as far as \<^verbatim>\<open>str()\<close> prints it.
\<close>

theorem transcribe_status_replaced:
  "(\<forall>url headers params data.
      requests_post world url headers params data =
        Inr \<lparr>status_code = 401, text_body = ''Invalid credentials'',
             json_body = Inl (ProviderError ''no JSON'')\<rparr>) \<and>
   transcribe_audio_deepgram world ''RIFF'' (Some ''wav'') ''en'' =
     Inl (HTTPException 500 ''Transcription error: 401: Deepgram API Error: Invalid credentials'')"
  by (simp add: transcribe_audio_deepgram_def transcribe_body_def then_do_def world_def
        world_exc_str_def show_int_def show_nat.simps Let_def)

section \<open>Translations and examples\<close>

text \<open>
  C6, as the code has it. A language code outside the table of translations makes the
  translations endpoint fail with status 400; the examples endpoint has no such check and
  answers the English examples for every code other than \<^verbatim>\<open>ja\<close>. Neither endpoint changes
  the session store.
\<close>

theorem unsupported_language:
  assumes "map_of translations_table language = None"
  shows "handle E sessions (GetTranslations language) =
           (Inl (HTTPException 400 ''Language not supported''), sessions) \<and>
         handle E sessions (GetExamples language) =
           (Inr (ExamplesResponse examples_en), sessions)"
proof -
  have "language \<noteq> ''ja''"
    using assms by (auto simp: translations_table_def)
  then show ?thesis
    using assms by (simp add: get_translations_def get_examples_def answer_with_def)
qed

theorem unsupported_language_witness:
  "map_of translations_table ''fr'' = None \<and>
   handle world Map.empty (GetTranslations ''fr'') =
     (Inl (HTTPException 400 ''Language not supported''), Map.empty) \<and>
   handle world Map.empty (GetExamples ''fr'') =
     (Inr (ExamplesResponse examples_en), Map.empty)"
proof -
  have h: "map_of translations_table ''fr'' = None"
    by (simp add: translations_table_def)
  from unsupported_language [where language = "''fr''" and E = world and sessions = Map.empty, OF h] show ?thesis
    using h by simp
qed

text \<open>
  The claim as stated fails at the code \<^verbatim>\<open>fr\<close>: it is no key of the table, and the
  examples endpoint answers a list, not an error.
\<close>

theorem examples_unsupported_counterexample:
  "map_of translations_table ''fr'' = None \<and>
   get_examples ''fr'' = Inr examples_en \<and>
   (\<forall>c d. get_examples ''fr'' \<noteq> Inl (HTTPException c d))"
  by (simp add: translations_table_def get_examples_def)

section \<open>Formatting a payload\<close>




section \<open>Transcripts are recorded in pairs\<close>

lemma paired_Nil: "paired []"
  by (simp add: paired_def)

lemma paired_append_exchange:
  assumes "paired h"
  shows "paired (h @ [Turn ''user'' q] @ [Turn ''assistant'' a])"
proof -
  have ev: "even (length h)" using assms by (simp add: paired_def)
  have old: "\<And>i. i < length h \<Longrightarrow> turn_role (h ! i) = (if even i then ''user'' else ''assistant'')"
    using assms by (simp add: paired_def)
  have "turn_role ((h @ [Turn ''user'' q, Turn ''assistant'' a]) ! i) =
          (if even i then ''user'' else ''assistant'')"
    if lt: "i < length h + 2" for i
  proof -
    consider "i < length h" | "i = length h" | "i = Suc (length h)"
      using lt by linarith
    then show ?thesis
    proof cases
      case 1
      then show ?thesis by (simp add: nth_append old)
    next
      case 2
      then show ?thesis using ev by (simp add: nth_append)
    next
      case 3
      then show ?thesis using ev by (simp add: nth_append)
    qed
  qed
  then show ?thesis
    using ev by (simp add: paired_def)
qed

lemma record_turns_paired:
  assumes "\<And>h. s_chat_history s = Some h \<Longrightarrow> paired h"
    and "s_chat_history (record_turns s q a) = Some h'"
  shows "paired h'"
proof (cases "q = []")
  case True
  then show ?thesis using assms by (simp add: record_turns_def)
next
  case False
  show ?thesis
  proof (cases "s_chat_history s")
    case None
    then have "h' = [] @ [Turn ''user'' (Some q)] @ [Turn ''assistant'' a]"
      using assms(2) False by (simp add: record_turns_def)
    then show ?thesis
      using paired_append_exchange [OF paired_Nil] by simp
  next
    case (Some h)
    then have "h' = h @ [Turn ''user'' (Some q)] @ [Turn ''assistant'' a]"
      using assms(2) False by (simp add: record_turns_def)
    then show ?thesis
      using paired_append_exchange [OF assms(1) [OF Some]] by simp
  qed
qed

lemma get_suggestions_paired:
  assumes "all_paired sessions"
  shows "all_paired (snd (get_suggestions E sessions request))"
proof (cases "sessions (cr_session_id request)")
  case None
  then show ?thesis using assms by (simp add: get_suggestions_def)
next
  case (Some s)
  have s: "\<And>h. s_chat_history s = Some h \<Longrightarrow> paired h"
    using assms Some by (auto simp: all_paired_def)
  have upd: "all_paired (sessions(cr_session_id request \<mapsto> s'))"
    if "\<And>h. s_chat_history s' = Some h \<Longrightarrow> paired h" for s'
    using assms that by (auto simp: all_paired_def)
  have rec: "all_paired (sessions(cr_session_id request \<mapsto> record_turns s' q a))"
    if "s_chat_history s' = s_chat_history s" for s' q a
    by (rule upd) (rule record_turns_paired [of s'], simp_all add: that s)
  have w: "all_paired (sessions(cr_session_id request \<mapsto> s\<lparr>s_weather_data := x\<rparr>))" for x
    by (rule upd) (simp add: s)
  have r0: "all_paired (sessions(cr_session_id request \<mapsto> record_turns s q a))" for q a
    by (rule rec) simp
  have r1: "all_paired (sessions(cr_session_id request \<mapsto>
              record_turns (s\<lparr>s_weather_data := x, s_formatted_weather := y\<rparr>) q a))" for x y q a
    by (rule rec) simp
  show ?thesis
    using Some assms
    by (auto simp: get_suggestions_def Let_def w r0 r1 split: sum.splits)
qed

lemma handle_paired:
  assumes "all_paired sessions"
  shows "all_paired (snd (handle E sessions request))"
proof (cases request)
  case (PostSuggestions r)
  then show ?thesis
    using get_suggestions_paired [OF assms, of E r] by (auto split: prod.splits)
next
  case (PostWeatherWithSuggestions location language session_id)
  then show ?thesis
    using assms
    by (auto simp: get_weather_with_suggestions_def Let_def all_paired_def paired_Nil
             split: sum.splits option.splits)
next
  case (DeleteChat session_id)
  then show ?thesis
    using assms
    by (auto simp: clear_chat_def all_paired_def paired_Nil split: option.splits)
qed (use assms in simp_all)

lemma get_suggestions_cases:
  assumes s: "sessions (cr_session_id request) = Some s"
  obtains
    (failed) e where
      "fst (get_ai_suggestions E 0 (s_weather_data s) (Some (cr_query request))
              (cr_language request) True) = Inl e"
      "get_suggestions E sessions request = (Inl e, sessions)"
  | (kept) result where
      "fst (get_ai_suggestions E 0 (s_weather_data s) (Some (cr_query request))
              (cr_language request) True) = Inr result"
      "\<not> weather_changed (r_weather_data result) (s_weather_data s)"
      "get_suggestions E sessions request =
         (Inr \<lparr>sr_suggestion = r_content result,
               sr_chat_history = transcript (record_turns s (cr_query request) (r_content result)),
               sr_weather = None\<rparr>,
          sessions(cr_session_id request \<mapsto>
            record_turns s (cr_query request) (r_content result)))"
  | (unformatted) result e where
      "fst (get_ai_suggestions E 0 (s_weather_data s) (Some (cr_query request))
              (cr_language request) True) = Inr result"
      "format_weather_data E (r_weather_data result) = Inl e"
      "get_suggestions E sessions request =
         (Inl e, sessions(cr_session_id request \<mapsto> s\<lparr>s_weather_data := r_weather_data result\<rparr>))"
  | (replaced) result formatted where
      "fst (get_ai_suggestions E 0 (s_weather_data s) (Some (cr_query request))
              (cr_language request) True) = Inr result"
      "format_weather_data E (r_weather_data result) = Inr formatted"
      "get_suggestions E sessions request =
         (Inr \<lparr>sr_suggestion = r_content result,
               sr_chat_history =
                 transcript (record_turns
                   (s\<lparr>s_weather_data := r_weather_data result,
                      s_formatted_weather := Some formatted\<rparr>)
                   (cr_query request) (r_content result)),
               sr_weather = Some formatted\<rparr>,
          sessions(cr_session_id request \<mapsto>
            record_turns
              (s\<lparr>s_weather_data := r_weather_data result,
                 s_formatted_weather := Some formatted\<rparr>)
              (cr_query request) (r_content result)))"
proof (cases "fst (get_ai_suggestions E 0 (s_weather_data s) (Some (cr_query request))
                (cr_language request) True)")
  case (Inl e)
  then show ?thesis
    using s failed by (simp add: get_suggestions_def)
next
  case (Inr result)
  show ?thesis
  proof (cases "weather_changed (r_weather_data result) (s_weather_data s)")
    case False
    then show ?thesis
      using s Inr kept [of result] by (simp add: get_suggestions_def Let_def transcript_def)
  next
    case True
    show ?thesis
    proof (cases "format_weather_data E (r_weather_data result)")
      case (Inl e)
      then show ?thesis
        using s Inr True unformatted [of result e] by (simp add: get_suggestions_def Let_def)
    next
      case (Inr formatted)
      then show ?thesis
        using s \<open>fst (get_ai_suggestions E 0 (s_weather_data s) (Some (cr_query request))
                (cr_language request) True) = Inr result\<close> True replaced [of result formatted]
        by (simp add: get_suggestions_def Let_def transcript_def)
    qed
  qed
qed

lemma record_turns_history:
  "s_chat_history (record_turns s q a) =
     (if q \<noteq> [] then Some (transcript s @ [Turn ''user'' (Some q), Turn ''assistant'' a])
      else s_chat_history s)"
  by (simp add: record_turns_def transcript_def)

lemma get_suggestions_answered:
  assumes s: "sessions (cr_session_id request) = Some s"
    and r: "fst (get_suggestions E sessions request) = Inr response"
  shows "\<exists>s'. snd (get_suggestions E sessions request) (cr_session_id request) = Some s' \<and>
           s_chat_history s' =
             (if cr_query request \<noteq> [] then
                Some (transcript s @
                      [Turn ''user'' (Some (cr_query request)),
                       Turn ''assistant'' (sr_suggestion response)])
              else s_chat_history s) \<and>
           sr_chat_history response = transcript s'"
  using s
proof (cases rule: get_suggestions_cases [where E = E])
  case (failed e)
  then show ?thesis using r by simp
next
  case (kept result)
  then show ?thesis
    using r by (auto simp: record_turns_history)
next
  case (unformatted result e)
  then show ?thesis using r by simp
next
  case (replaced result formatted)
  then show ?thesis
    using r by (auto simp: record_turns_history transcript_def)
qed

lemma get_suggestions_raised:
  assumes s: "sessions (cr_session_id request) = Some s"
    and r: "fst (get_suggestions E sessions request) = Inl e"
  shows "\<exists>s'. snd (get_suggestions E sessions request) (cr_session_id request) = Some s' \<and>
           s_chat_history s' = s_chat_history s"
  using s
proof (cases rule: get_suggestions_cases [where E = E])
  case (failed e)
  then show ?thesis using s by simp
next
  case (kept result)
  then show ?thesis using r by simp
next
  case (unformatted result e)
  then show ?thesis by simp
next
  case (replaced result formatted)
  then show ?thesis using r by simp
qed

lemma get_suggestions_others:
  assumes "other \<noteq> cr_session_id request"
  shows "snd (get_suggestions E sessions request) other = sessions other"
  using assms
  by (auto simp: get_suggestions_def Let_def split: sum.splits option.splits)

lemma get_suggestions_missing:
  assumes "sessions (cr_session_id request) = None"
  shows "snd (get_suggestions E sessions request) = sessions"
  using assms by (simp add: get_suggestions_def)

lemma chatty_paired: "all_paired two_sessions" "all_paired broken_sessions"
  by (auto simp: all_paired_def two_sessions_def broken_sessions_def chatty_def paired_def
        less_Suc_eq numeral_2_eq_2 split: if_splits)

lemma asked_now:
  "get_suggestions world two_sessions asks_now =
     (Inr \<lparr>sr_suggestion = Some ''Take a walk in the park.'',
           sr_chat_history =
             [Turn ''user'' (Some ''What now?''), Turn ''assistant'' (Some ''Rest.''),
              Turn ''user'' (Some ''What now?''),
              Turn ''assistant'' (Some ''Take a walk in the park.'')],
           sr_weather = None\<rparr>,
      two_sessions(''a'' \<mapsto> chatty\<lparr>s_chat_history :=
        Some [Turn ''user'' (Some ''What now?''), Turn ''assistant'' (Some ''Rest.''),
              Turn ''user'' (Some ''What now?''),
              Turn ''assistant'' (Some ''Take a walk in the park.'')]\<rparr>))"
  by (simp add: get_suggestions_def asks_now_def two_sessions_def chatty_def
        world_suggestion osaka_query_def record_turns_def Let_def)

lemma asked_broken:
  "get_suggestions world broken_sessions asks_now = (Inl (KeyError ''current''), broken_sessions)"
  by (simp add: get_suggestions_def asks_now_def broken_sessions_def chatty_def bare_def
        get_ai_suggestions_def first_context_def weather_text_def then_do_def)

text \<open>
  C8. A call of \<^verbatim>\<open>get_suggestions\<close> on a session that answers leaves the transcript of the
  session extended by exactly the user turn with the query and the assistant turn with the
  suggestion, in this order and after everything the transcript held (for an empty query it
  leaves the transcript as it was), and answers that transcript. A call that raises leaves
  the transcript as it was; no call touches another session, and a call for an unknown
  session leaves the store as it was. So, from a store whose transcripts are paired (an
  empty store, or any store made by the endpoints), every sequence of requests, whatever
  the collaborators answer, leaves every transcript of even length, alternating between
  user and assistant, the user first.
\<close>

theorem exchanges_recorded_in_pairs:
  "(sessions (cr_session_id request) = Some s \<and>
    fst (get_suggestions E sessions request) = Inr response \<longrightarrow>
      (\<exists>s'. snd (get_suggestions E sessions request) (cr_session_id request) = Some s' \<and>
            s_chat_history s' =
              (if cr_query request \<noteq> [] then
                 Some (transcript s @
                       [Turn ''user'' (Some (cr_query request)),
                        Turn ''assistant'' (sr_suggestion response)])
               else s_chat_history s) \<and>
            sr_chat_history response = transcript s')) \<and>
   (sessions (cr_session_id request) = Some s \<and>
    fst (get_suggestions E sessions request) = Inl e \<longrightarrow>
      (\<exists>s'. snd (get_suggestions E sessions request) (cr_session_id request) = Some s' \<and>
            s_chat_history s' = s_chat_history s)) \<and>
   (other \<noteq> cr_session_id request \<longrightarrow>
      snd (get_suggestions E sessions request) other = sessions other) \<and>
   (sessions (cr_session_id request) = None \<longrightarrow>
      snd (get_suggestions E sessions request) = sessions) \<and>
   (all_paired sessions \<longrightarrow> all_paired (serve sessions requests))"
proof (intro conjI impI)
  assume "sessions (cr_session_id request) = Some s \<and>
    fst (get_suggestions E sessions request) = Inr response"
  then show "\<exists>s'. snd (get_suggestions E sessions request) (cr_session_id request) = Some s' \<and>
            s_chat_history s' =
              (if cr_query request \<noteq> [] then
                 Some (transcript s @
                       [Turn ''user'' (Some (cr_query request)),
                        Turn ''assistant'' (sr_suggestion response)])
               else s_chat_history s) \<and>
            sr_chat_history response = transcript s'"
    using get_suggestions_answered by blast
next
  assume "sessions (cr_session_id request) = Some s \<and>
    fst (get_suggestions E sessions request) = Inl e"
  then show "\<exists>s'. snd (get_suggestions E sessions request) (cr_session_id request) = Some s' \<and>
            s_chat_history s' = s_chat_history s"
    using get_suggestions_raised by blast
next
  assume "other \<noteq> cr_session_id request"
  then show "snd (get_suggestions E sessions request) other = sessions other"
    by (rule get_suggestions_others)
next
  assume "sessions (cr_session_id request) = None"
  then show "snd (get_suggestions E sessions request) = sessions"
    by (rule get_suggestions_missing)
next
  assume "all_paired sessions"
  then show "all_paired (serve sessions requests)"
  proof (induction requests arbitrary: sessions)
    case Nil
    then show ?case by simp
  next
    case (Cons r requests)
    obtain E' request' where r: "r = (E', request')" by (cases r)
    show ?case
      unfolding r serve.simps
      by (rule Cons.IH) (rule handle_paired [OF Cons.prems])
  qed
qed

theorem exchanges_recorded_in_pairs_witness:
  "two_sessions (cr_session_id asks_now) = Some chatty \<and>
   transcript chatty = [Turn ''user'' (Some ''What now?''), Turn ''assistant'' (Some ''Rest.'')] \<and>
   cr_query asks_now = ''What now?'' \<and>
   fst (get_suggestions world two_sessions asks_now) =
     Inr \<lparr>sr_suggestion = Some ''Take a walk in the park.'',
          sr_chat_history =
            [Turn ''user'' (Some ''What now?''), Turn ''assistant'' (Some ''Rest.''),
             Turn ''user'' (Some ''What now?''),
             Turn ''assistant'' (Some ''Take a walk in the park.'')],
          sr_weather = None\<rparr> \<and>
   (\<exists>s'. snd (get_suggestions world two_sessions asks_now) ''a'' = Some s' \<and>
         s_chat_history s' =
           Some [Turn ''user'' (Some ''What now?''), Turn ''assistant'' (Some ''Rest.''),
                 Turn ''user'' (Some ''What now?''),
                 Turn ''assistant'' (Some ''Take a walk in the park.'')]) \<and>
   ''b'' \<noteq> cr_session_id asks_now \<and>
   snd (get_suggestions world two_sessions asks_now) ''b'' = two_sessions ''b'' \<and>
   broken_sessions (cr_session_id asks_now) = Some (chatty\<lparr>s_weather_data := bare\<rparr>) \<and>
   fst (get_suggestions world broken_sessions asks_now) = Inl (KeyError ''current'') \<and>
   (\<exists>s'. snd (get_suggestions world broken_sessions asks_now) ''a'' = Some s' \<and>
         s_chat_history s' = s_chat_history chatty) \<and>
   Map.empty (cr_session_id asks_now) = (None :: session option) \<and>
   snd (get_suggestions world Map.empty asks_now) = Map.empty \<and>
   all_paired two_sessions \<and>
   all_paired (serve two_sessions [(world, PostSuggestions asks_now)])"
proof -
  note t = exchanges_recorded_in_pairs
  have a: "two_sessions (cr_session_id asks_now) = Some chatty"
    by (simp add: asks_now_def two_sessions_def)
  have b: "broken_sessions (cr_session_id asks_now) = Some (chatty\<lparr>s_weather_data := bare\<rparr>)"
    by (simp add: asks_now_def broken_sessions_def)
  have c: "''b'' \<noteq> cr_session_id asks_now" "cr_query asks_now = ''What now?''"
    "cr_session_id asks_now = ''a''"
    by (simp_all add: asks_now_def)
  have d: "transcript chatty =
      [Turn ''user'' (Some ''What now?''), Turn ''assistant'' (Some ''Rest.'')]"
    by (simp add: transcript_def chatty_def)
  from t [of two_sessions asks_now chatty world _ _ "''b''" "[(world, PostSuggestions asks_now)]"]
       t [of broken_sessions asks_now "chatty\<lparr>s_weather_data := bare\<rparr>" world _
            "KeyError ''current''"]
       t [of Map.empty asks_now]
  show ?thesis
    using a b c d chatty_paired by (simp add: asked_now asked_broken)
qed
section \<open>Session store: clearing a chat\<close>

text \<open>
  C9. For an existing session, \<^verbatim>\<open>clear_chat\<close> answers the confirmation and leaves the
  session with an empty transcript and the same weather snapshot (and the same language and
  formatted weather); no other session is modified.
\<close>

theorem clear_chat_frame:
  assumes "sessions session_id = Some s"
  shows "fst (clear_chat sessions session_id) = Inr ''Chat history cleared'' \<and>
         (\<exists>s'. snd (clear_chat sessions session_id) session_id = Some s' \<and>
               s_chat_history s' = Some [] \<and>
               s_weather_data s' = s_weather_data s \<and>
               s_language s' = s_language s \<and>
               s_formatted_weather s' = s_formatted_weather s) \<and>
         (\<forall>other. other \<noteq> session_id \<longrightarrow>
               snd (clear_chat sessions session_id) other = sessions other)"
  using assms by (simp add: clear_chat_def)

theorem clear_chat_frame_witness:
  "two_sessions ''a'' = Some chatty \<and>
   fst (clear_chat two_sessions ''a'') = Inr ''Chat history cleared'' \<and>
   (\<exists>s'. snd (clear_chat two_sessions ''a'') ''a'' = Some s' \<and>
         s_chat_history s' = Some [] \<and>
         s_weather_data s' = payload ''Tokyo'') \<and>
   snd (clear_chat two_sessions ''a'') ''b'' = two_sessions ''b''"
proof -
  have h: "two_sessions ''a'' = Some chatty"
    by (simp add: two_sessions_def)
  from clear_chat_frame [of two_sessions "''a''" chatty, OF h] show ?thesis
    using h by (auto simp: chatty_def)
qed

section \<open>Weather with suggestions on an existing session\<close>

text \<open>
  C10. When the fetch and the formatting succeed and the request names a session that is
  in the store, the session is replaced as a whole: the new payload, an empty transcript
  and the language of the request, whatever was recorded before; the other sessions stay,
  and the call answers normally.
\<close>

theorem weather_with_suggestions_replaces:
  assumes "fetch_weather E 0 (PStr location) = Inr weather_data"
    and "format_weather_data E weather_data = Inr formatted"
    and "session_id \<noteq> []"
    and "sessions session_id = Some old"
  shows "snd (get_weather_with_suggestions E sessions location language (Some session_id)) =
           sessions(session_id \<mapsto>
             \<lparr>s_weather_data = weather_data, s_chat_history = Some [],
              s_language = language, s_formatted_weather = None\<rparr>) \<and>
         (\<exists>suggestion.
            fst (get_weather_with_suggestions E sessions location language (Some session_id)) =
              Inr \<lparr>wr_session_id = session_id, wr_weather = formatted,
                   wr_suggestion = suggestion\<rparr>)"
proof -
  have "truthy weather_data \<longrightarrow> (\<exists>c. weather_text E ''Current weather in '' weather_data = Inr c)"
    using formatted_has_context [OF assms(2)] by blast
  from get_ai_suggestions_returns [OF this, of 1 None language False]
  obtain r where "fst (get_ai_suggestions E 1 weather_data None language False) = Inr r" ..
  then show ?thesis
    using assms by (simp add: get_weather_with_suggestions_def Let_def)
qed

theorem weather_with_suggestions_replaces_witness:
  "fetch_weather world 0 (PStr ''Osaka'') = Inr (payload ''Osaka'') \<and>
   format_weather_data world (payload ''Osaka'') = Inr (snapshot ''Osaka'') \<and>
   ''a'' \<noteq> [] \<and>
   two_sessions ''a'' = Some chatty \<and>
   s_chat_history chatty = Some [Turn ''user'' (Some ''What now?''), Turn ''assistant'' (Some ''Rest.'')] \<and>
   snd (get_weather_with_suggestions world two_sessions ''Osaka'' ''ja'' (Some ''a'')) =
     two_sessions(''a'' \<mapsto>
       \<lparr>s_weather_data = payload ''Osaka'', s_chat_history = Some [],
        s_language = ''ja'', s_formatted_weather = None\<rparr>) \<and>
   (\<exists>suggestion.
      fst (get_weather_with_suggestions world two_sessions ''Osaka'' ''ja'' (Some ''a'')) =
        Inr \<lparr>wr_session_id = ''a'', wr_weather = snapshot ''Osaka'', wr_suggestion = suggestion\<rparr>)"
proof -
  have h1: "fetch_weather world 0 (PStr ''Osaka'') = Inr (payload ''Osaka'')"
    by (rule fetch_world)
  have h2: "format_weather_data world (payload ''Osaka'') = Inr (snapshot ''Osaka'')"
    by (rule format_world)
  have h3: "''a'' \<noteq> []" by simp
  have h4: "two_sessions ''a'' = Some chatty" by (simp add: two_sessions_def)
  have h5: "s_chat_history chatty =
      Some [Turn ''user'' (Some ''What now?''), Turn ''assistant'' (Some ''Rest.'')]"
    by (simp add: chatty_def)
  from weather_with_suggestions_replaces
         [where sessions = two_sessions and session_id = "''a''" and language = "''ja''",
          OF h1 h2 h3 h4] show ?thesis
    using h1 h2 h4 h5 by simp
qed

end
